theory Spec2Isabelle
  imports Main "HOL-Library.Word" "HOL-Library.Signed_Division"
begin

unbundle bit_operations_syntax

section \<open>The PostgreSQL scanner: a shallow embedding\<close>

text \<open>
  The development follows the scanner's translation unit function by function. Exceptions
  are values of the type \<open>error\<close> and every fallible function returns \<open>error + 'a\<close>.
  \<open>idx_t\<close> and \<open>column_t\<close> are unsigned 64-bit integers. Debug assertions
  (\<open>D_ASSERT\<close>) are compiled out of release builds and are therefore not branches of
  the model. Behaviour that C++ leaves undefined (a read outside a buffer, a null
  dereference, a division by zero) is the error \<open>UndefinedBehaviour\<close>.
\<close>

subsection \<open>Errors and basic types\<close>

datatype error =
    IOException string
  | InvalidInputException string
  | NotImplementedException string
  | InternalException string
  | UndefinedBehaviour string

type_synonym byte = "8 word"
type_synonym idx_t = "64 word"
type_synonym column_t = "64 word"

definition POSTGRES_TID_MAX :: idx_t where
  "POSTGRES_TID_MAX = 4294967295"

definition COLUMN_IDENTIFIER_ROW_ID :: column_t where
  "COLUMN_IDENTIFIER_ROW_ID = - 1"

text \<open>Indexing a \<open>duckdb::vector\<close> is bounds-checked and throws an internal exception.\<close>

definition vector_at :: "'a list \<Rightarrow> idx_t \<Rightarrow> error + 'a" where
  "vector_at xs i =
     (if unat i < length xs then Inr (xs ! unat i)
      else Inl (InternalException ''Attempted to access index outside of vector''))"

text \<open>\<open>StringUtil::Join\<close>: the entries separated by the separator.\<close>

fun Join :: "string list \<Rightarrow> string \<Rightarrow> string" where
  "Join [] sep = []"
| "Join [x] sep = x"
| "Join (x # y # ys) sep = x @ sep @ Join (y # ys) sep"

text \<open>The decimal rendering of an unsigned integer, as \<open>%d\<close> formats it.\<close>

definition digit_char :: "nat \<Rightarrow> char" where
  "digit_char d = ''0123456789'' ! d"

fun show_nat :: "nat \<Rightarrow> string" where
  "show_nat n = (if n < 10 then [digit_char n] else show_nat (n div 10) @ [digit_char (n mod 10)])"

declare show_nat.simps [simp del]

subsection \<open>Predicate translation\<close>

text \<open>
  The filter tree of the host engine. \<open>OTHER_EXPRESSION\<close> and \<open>OTHER_FILTER\<close> stand for
  every enumerator of \<open>ExpressionType\<close> and \<open>TableFilterType\<close> that the switch
  statements do not name. A constant filter carries the text of its constant
  (\<open>constant.ToString()\<close>).
\<close>

datatype ExpressionType =
    COMPARE_EQUAL
  | COMPARE_NOTEQUAL
  | COMPARE_LESSTHAN
  | COMPARE_GREATERTHAN
  | COMPARE_LESSTHANOREQUALTO
  | COMPARE_GREATERTHANOREQUALTO
  | OTHER_EXPRESSION

datatype TableFilter =
    IS_NULL
  | IS_NOT_NULL
  | CONJUNCTION_AND "TableFilter list"
  | CONJUNCTION_OR "TableFilter list"
  | CONSTANT_COMPARISON ExpressionType string
  | OTHER_FILTER

fun TransformComparision :: "ExpressionType \<Rightarrow> error + string" where
  "TransformComparision COMPARE_EQUAL = Inr ''=''"
| "TransformComparision COMPARE_NOTEQUAL = Inr ''!=''"
| "TransformComparision COMPARE_LESSTHAN = Inr ''<''"
| "TransformComparision COMPARE_GREATERTHAN = Inr ''>''"
| "TransformComparision COMPARE_LESSTHANOREQUALTO = Inr ''<=''"
| "TransformComparision COMPARE_GREATERTHANOREQUALTO = Inr ''>=''"
| "TransformComparision OTHER_EXPRESSION = Inl (NotImplementedException ''Unsupported expression type'')"

definition quote_char :: char where
  "quote_char = CHR 0x27"

definition dquote_char :: char where
  "dquote_char = CHR 0x22"

text \<open>
  \<open>TransformFilter\<close> and \<open>CreateExpression\<close> are mutually recursive;
  \<open>filter_entries\<close> is the loop of \<open>CreateExpression\<close> that transforms the children
  in order and stops at the first exception.
\<close>

fun TransformFilter :: "string \<Rightarrow> TableFilter \<Rightarrow> error + string"
  and CreateExpression :: "string \<Rightarrow> TableFilter list \<Rightarrow> string \<Rightarrow> error + string"
  and filter_entries :: "string \<Rightarrow> TableFilter list \<Rightarrow> error + string list"
where
  "TransformFilter column_name IS_NULL = Inr (column_name @ '' IS NULL'')"
| "TransformFilter column_name IS_NOT_NULL = Inr (column_name @ '' IS NOT NULL'')"
| "TransformFilter column_name (CONJUNCTION_AND child_filters) =
     CreateExpression column_name child_filters ''AND''"
| "TransformFilter column_name (CONJUNCTION_OR child_filters) =
     CreateExpression column_name child_filters ''OR''"
| "TransformFilter column_name (CONSTANT_COMPARISON comparison_type constant) =
     (let constant_string = [quote_char] @ constant @ [quote_char] in
      case TransformComparision comparison_type of
        Inl e \<Rightarrow> Inl e
      | Inr operator_string \<Rightarrow>
          Inr (column_name @ '' '' @ operator_string @ '' '' @ constant_string))"
| "TransformFilter column_name OTHER_FILTER =
     Inl (InternalException ''Unsupported table filter type'')"
| "CreateExpression column_name child_filters op =
     (case filter_entries column_name child_filters of
        Inl e \<Rightarrow> Inl e
      | Inr entries \<Rightarrow> Inr (''('' @ Join entries ('' '' @ op @ '' '') @ '')''))"
| "filter_entries column_name [] = Inr []"
| "filter_entries column_name (f # fs) =
     (case TransformFilter column_name f of
        Inl e \<Rightarrow> Inl e
      | Inr s \<Rightarrow>
          (case filter_entries column_name fs of
             Inl e \<Rightarrow> Inl e
           | Inr ss \<Rightarrow> Inr (s # ss)))"

subsection \<open>Type mapping\<close>

text \<open>
  The target types of the host engine. A decimal type carries the width and the scale as
  the unsigned 64-bit values the mapper computes; an enum type carries its name and its
  labels in order.
\<close>

datatype LogicalType =
    INVALID
  | BOOLEAN
  | SMALLINT
  | INTEGER
  | BIGINT
  | UINTEGER
  | FLOAT
  | DOUBLE
  | DECIMAL "64 word" "64 word"
  | VARCHAR
  | DATE
  | BLOB
  | TIME
  | TIME_TZ
  | TIMESTAMP
  | TIMESTAMP_TZ
  | INTERVAL
  | UUID
  | ENUM string "string list"
  | LIST LogicalType

record PostgresTypeInfo =
  nspname :: string
  typname :: string
  typlen :: "64 word"
  typtype :: string

record PostgresColumnInfo =
  attname :: string
  atttypmod :: "32 word"
  type_info :: PostgresTypeInfo
  typelem :: "64 word"
  elem_info :: PostgresTypeInfo

text \<open>
  What the remote server answers. Every query can fail with the \<open>IOException\<close> of
  \<open>PGQuery\<close>. \<open>class_rows\<close> answers the relation lookup by schema and table name
  with rows (oid, GREATEST(relpages, 1)); \<open>attribute_rows\<close> answers the column query
  for a relation oid; \<open>enum_range\<close> answers the label query of an enum type.
\<close>

record attribute_row =
  r_attname :: string
  r_atttypmod :: "32 word"
  r_nspname :: string
  r_typname :: string
  r_typlen :: "64 word"
  r_typtype :: string
  r_typelem :: "64 word"
  r_elem_typname :: string
  r_elem_typlen :: "64 word"
  r_elem_typtype :: string

record PostgresServer =
  connect :: "string \<Rightarrow> error option"
  exec_command :: "string \<Rightarrow> error option"
  is_in_recovery :: "error + bool"
  export_snapshot :: "error + string"
  class_rows :: "string \<Rightarrow> string \<Rightarrow> error + (64 word \<times> 64 word) list"
  attribute_rows :: "64 word \<Rightarrow> error + attribute_row list"
  enum_range :: "string \<Rightarrow> string \<Rightarrow> error + string list"

definition StartsWith :: "string \<Rightarrow> string \<Rightarrow> bool" where
  "StartsWith s p = (take (length p) s = p)"

text \<open>
  \<open>DuckDBType2\<close> takes the type information and the element information by pointer;
  \<open>None\<close> is the null pointer, which the recursive call passes for the element
  information. Dereferencing it is undefined.
\<close>

function DuckDBType2 ::
  "PostgresServer \<Rightarrow> PostgresTypeInfo option \<Rightarrow> 32 word \<Rightarrow> PostgresTypeInfo option
     \<Rightarrow> error + LogicalType"
where
  "DuckDBType2 srv None typmod_v ele_info = Inl (UndefinedBehaviour ''null type_info'')"
| "DuckDBType2 srv (Some ti) typmod_v ele_info =
     (let pgtypename = typname ti in
      if StartsWith pgtypename ''_'' then
        (case DuckDBType2 srv ele_info typmod_v None of
           Inl e \<Rightarrow> Inl e
         | Inr t \<Rightarrow> Inr (LIST t))
      else if typtype ti = ''e'' then
        (case enum_range srv (nspname ti) (typname ti) of
           Inl e \<Rightarrow> Inl e
         | Inr levels \<Rightarrow> Inr (ENUM (''postgres_enum_'' @ pgtypename) levels))
      else if pgtypename = ''bool'' then Inr BOOLEAN
      else if pgtypename = ''int2'' then Inr SMALLINT
      else if pgtypename = ''int4'' then Inr INTEGER
      else if pgtypename = ''int8'' then Inr BIGINT
      else if pgtypename = ''oid'' then Inr UINTEGER
      else if pgtypename = ''float4'' then Inr FLOAT
      else if pgtypename = ''float8'' then Inr DOUBLE
      else if pgtypename = ''numeric'' then
        (if typmod_v = - 1 then Inr DOUBLE
         else
           (let width = drop_bit 16 ((scast typmod_v :: 64 word) - 4) AND 0xffff;
                scale = ((((scast typmod_v :: 64 word) - 4) AND 0x7ff) XOR 1024) - 1024
            in Inr (DECIMAL width scale)))
      else if pgtypename = ''char'' \<or> pgtypename = ''bpchar'' \<or> pgtypename = ''varchar''
              \<or> pgtypename = ''text'' \<or> pgtypename = ''jsonb'' \<or> pgtypename = ''json''
        then Inr VARCHAR
      else if pgtypename = ''date'' then Inr DATE
      else if pgtypename = ''bytea'' then Inr BLOB
      else if pgtypename = ''time'' then Inr TIME
      else if pgtypename = ''timetz'' then Inr TIME_TZ
      else if pgtypename = ''timestamp'' then Inr TIMESTAMP
      else if pgtypename = ''timestamptz'' then Inr TIMESTAMP_TZ
      else if pgtypename = ''interval'' then Inr INTERVAL
      else if pgtypename = ''uuid'' then Inr UUID
      else Inr INVALID)"
  by pat_completeness auto
termination
  by (relation "measure (\<lambda>(srv, ti, m, ei).
        (case ti of None \<Rightarrow> 0 | Some _ \<Rightarrow> Suc 0) + (case ei of None \<Rightarrow> 0 | Some _ \<Rightarrow> Suc 0))")
     (auto split: option.splits)

definition DuckDBType :: "PostgresServer \<Rightarrow> PostgresColumnInfo \<Rightarrow> error + LogicalType" where
  "DuckDBType srv info =
     DuckDBType2 srv (Some (type_info info)) (atttypmod info) (Some (elem_info info))"

subsection \<open>Bind\<close>

record PostgresBindData =
  dsn :: string
  schema_name :: string
  table_name :: string
  pages_approx :: idx_t
  columns :: "PostgresColumnInfo list"
  names :: "string list"
  types :: "LogicalType list"
  needs_cast :: "bool list"
  pages_per_task :: idx_t
  snapshot :: string
  in_recovery :: bool

definition column_info :: "attribute_row \<Rightarrow> PostgresColumnInfo" where
  "column_info r =
     \<lparr> attname = r_attname r,
       atttypmod = r_atttypmod r,
       type_info = \<lparr> nspname = r_nspname r, typname = r_typname r,
                     typlen = r_typlen r, typtype = r_typtype r \<rparr>,
       typelem = r_typelem r,
       elem_info = \<lparr> nspname = r_nspname r, typname = r_elem_typname r,
                     typlen = r_elem_typlen r, typtype = r_elem_typtype r \<rparr> \<rparr>"

text \<open>The loop of \<open>PrepareBind\<close> over the rows of the column query.\<close>

fun bind_columns ::
  "PostgresServer \<Rightarrow> attribute_row list \<Rightarrow> PostgresBindData \<Rightarrow> error + PostgresBindData"
where
  "bind_columns srv [] bind_data = Inr bind_data"
| "bind_columns srv (r # rows) bind_data =
     (let info = column_info r;
          bind_data = bind_data \<lparr> names := names bind_data @ [attname info] \<rparr>
      in case DuckDBType srv info of
           Inl e \<Rightarrow> Inl e
         | Inr duckdb_type \<Rightarrow>
             (let needs_cast_v = (duckdb_type = INVALID);
                  bind_data = bind_data \<lparr> needs_cast := needs_cast bind_data @ [needs_cast_v] \<rparr>;
                  bind_data =
                    (if \<not> needs_cast_v
                     then bind_data \<lparr> types := types bind_data @ [duckdb_type] \<rparr>
                     else bind_data \<lparr> types := types bind_data @ [VARCHAR] \<rparr>);
                  bind_data = bind_data \<lparr> columns := columns bind_data @ [info] \<rparr>
              in bind_columns srv rows bind_data))"

definition PrepareBind :: "PostgresServer \<Rightarrow> PostgresBindData \<Rightarrow> error + PostgresBindData" where
  "PrepareBind srv bind_data =
     (case is_in_recovery srv of
        Inl e \<Rightarrow> Inl e
      | Inr rec \<Rightarrow>
     (case (if \<not> rec then export_snapshot srv else Inr []) of
        Inl e \<Rightarrow> Inl e
      | Inr snap \<Rightarrow>
     (let bind_data = bind_data \<lparr> in_recovery := rec, snapshot := snap \<rparr> in
      case class_rows srv (schema_name bind_data) (table_name bind_data) of
        Inl e \<Rightarrow> Inl e
      | Inr res \<Rightarrow>
          (case res of
             [(oid, pages)] \<Rightarrow>
               (let bind_data = bind_data \<lparr> pages_approx := pages \<rparr> in
                case attribute_rows srv oid of
                  Inl e \<Rightarrow> Inl e
                | Inr rows \<Rightarrow>
                    if rows = []
                    then Inl (InvalidInputException ''Table does not contain any columns.'')
                    else bind_columns srv rows bind_data)
           | _ \<Rightarrow> Inl (InvalidInputException ''Postgres table not found'')))))"

text \<open>
  \<open>PostgresBind\<close> builds a fresh descriptor. The default of \<open>pages_per_task\<close> is
  declared with the descriptor's type, outside this translation unit; it is a
  parameter here.
\<close>

definition PostgresBind ::
  "PostgresServer \<Rightarrow> idx_t \<Rightarrow> string \<Rightarrow> string \<Rightarrow> string \<Rightarrow> error + PostgresBindData"
where
  "PostgresBind srv default_pages_per_task dsn_v schema_v table_v =
     (let bind_data =
            \<lparr> dsn = dsn_v, schema_name = schema_v, table_name = table_v, pages_approx = 0,
              columns = [], names = [], types = [], needs_cast = [],
              pages_per_task = default_pages_per_task, snapshot = [], in_recovery = False \<rparr>
      in case connect srv dsn_v of
           Some e \<Rightarrow> Inl e
         | None \<Rightarrow>
             (case exec_command srv ''BEGIN TRANSACTION ISOLATION LEVEL REPEATABLE READ READ ONLY'' of
                Some e \<Rightarrow> Inl e
              | None \<Rightarrow> PrepareBind srv bind_data))"

subsection \<open>The worker's COPY query\<close>

text \<open>
  The filter set maps a position of the projection list to a filter; it is kept as an
  association list in iteration order. The local state holds the filter set by pointer
  (\<open>None\<close> is the null pointer). The field \<open>done\<close> of the source is \<open>done_flag\<close>.
\<close>

type_synonym TableFilterSet = "(idx_t \<times> TableFilter) list"

record PostgresLocalState =
  done_flag :: bool
  exec :: bool
  sql :: string
  column_ids :: "column_t list"
  filters :: "TableFilterSet option"
  col_names :: string

text \<open>
  \<open>KeywordHelper::WriteQuoted\<close> belongs to the host engine; it is the parameter
  \<open>wq\<close>, applied to the text and the quote character.
\<close>

type_synonym write_quoted = "string \<Rightarrow> char \<Rightarrow> string"

text \<open>The loop of \<open>PostgresInitInternal\<close> that builds the projection list.\<close>

fun projection_loop ::
  "write_quoted \<Rightarrow> PostgresBindData \<Rightarrow> column_t list \<Rightarrow> string \<Rightarrow> error + string"
where
  "projection_loop wq bind_data [] acc = Inr acc"
| "projection_loop wq bind_data (column_id # rest) acc =
     (let acc = (if acc \<noteq> [] then acc @ '', '' else acc) in
      if column_id = COLUMN_IDENTIFIER_ROW_ID
      then projection_loop wq bind_data rest (acc @ ''ctid'')
      else
        (case vector_at (names bind_data) column_id of
           Inl e \<Rightarrow> Inl e
         | Inr name \<Rightarrow>
             (let acc = acc @ wq name dquote_char in
              case vector_at (needs_cast bind_data) column_id of
                Inl e \<Rightarrow> Inl e
              | Inr cast \<Rightarrow>
                  projection_loop wq bind_data rest
                    (if cast then acc @ ''::VARCHAR'' else acc))))"

text \<open>The loop of \<open>PostgresInitInternal\<close> over the entries of the filter set.\<close>

fun filter_loop ::
  "write_quoted \<Rightarrow> PostgresBindData \<Rightarrow> column_t list \<Rightarrow> TableFilterSet \<Rightarrow> error + string list"
where
  "filter_loop wq bind_data ids [] = Inr []"
| "filter_loop wq bind_data ids (entry # rest) =
     (case vector_at ids (fst entry) of
        Inl e \<Rightarrow> Inl e
      | Inr column_id \<Rightarrow>
     (case vector_at (names bind_data) column_id of
        Inl e \<Rightarrow> Inl e
      | Inr name \<Rightarrow>
     (let column_name = wq name quote_char in
      case TransformFilter column_name (snd entry) of
        Inl e \<Rightarrow> Inl e
      | Inr s \<Rightarrow>
          (case filter_loop wq bind_data ids rest of
             Inl e \<Rightarrow> Inl e
           | Inr ss \<Rightarrow> Inr (s # ss)))))"

definition newline :: string where
  "newline = [CHR 0x0A]"

text \<open>The format string of the COPY statement with its six arguments.\<close>

definition copy_statement ::
  "string \<Rightarrow> string \<Rightarrow> string \<Rightarrow> idx_t \<Rightarrow> idx_t \<Rightarrow> string \<Rightarrow> string"
where
  "copy_statement col_names_v schema_q table_q task_min task_max filter_string =
     newline @ ''COPY (SELECT '' @ col_names_v @ '' FROM '' @ schema_q @ ''.'' @ table_q
       @ '' WHERE ctid BETWEEN '' @ [quote_char] @ ''('' @ show_nat (unat task_min) @ '',0)''
       @ [quote_char] @ ''::tid AND '' @ [quote_char] @ ''('' @ show_nat (unat task_max)
       @ '',0)'' @ [quote_char] @ ''::tid '' @ filter_string
       @ '') TO STDOUT (FORMAT binary);'' @ newline"

definition PostgresInitInternal ::
  "write_quoted \<Rightarrow> PostgresBindData \<Rightarrow> PostgresLocalState \<Rightarrow> idx_t \<Rightarrow> idx_t
     \<Rightarrow> error + PostgresLocalState"
where
  "PostgresInitInternal wq bind_data lstate task_min task_max =
     (case projection_loop wq bind_data (column_ids lstate) [] of
        Inl e \<Rightarrow> Inl e
      | Inr col_names_v \<Rightarrow>
     (case (case filters lstate of
              None \<Rightarrow> Inr []
            | Some fs \<Rightarrow>
                if fs = [] then Inr []
                else
                  (case filter_loop wq bind_data (column_ids lstate) fs of
                     Inl e \<Rightarrow> Inl e
                   | Inr entries \<Rightarrow> Inr ('' AND '' @ Join entries '' AND ''))) of
        Inl e \<Rightarrow> Inl e
      | Inr filter_string \<Rightarrow>
          Inr (lstate \<lparr> sql :=
                   copy_statement col_names_v (wq (schema_name bind_data) dquote_char)
                     (wq (table_name bind_data) dquote_char) task_min task_max filter_string,
                 exec := False, done_flag := False \<rparr>)))"

subsection \<open>The scan coordinator\<close>

record PostgresGlobalState =
  page_idx :: idx_t
  max_threads :: idx_t

definition MaxThreads :: "PostgresGlobalState \<Rightarrow> idx_t" where
  "MaxThreads gstate = max_threads gstate"

text \<open>Unsigned 64-bit division; dividing by zero is undefined.\<close>

definition PostgresMaxThreads :: "PostgresBindData \<Rightarrow> error + idx_t" where
  "PostgresMaxThreads bind_data =
     (if pages_per_task bind_data = 0 then Inl (UndefinedBehaviour ''division by zero'')
      else Inr (pages_approx bind_data div pages_per_task bind_data))"

definition PostgresInitGlobalState :: "PostgresBindData \<Rightarrow> error + PostgresGlobalState" where
  "PostgresInitGlobalState bind_data =
     (case PostgresMaxThreads bind_data of
        Inl e \<Rightarrow> Inl e
      | Inr n \<Rightarrow> Inr \<lparr> page_idx = 0, max_threads = n \<rparr>)"

text \<open>
  \<open>PostgresParallelStateNext\<close> runs under the lock of the global state; it returns the
  flag together with the updated local and global state. The addition wraps at 64 bits.
\<close>

definition PostgresParallelStateNext ::
  "write_quoted \<Rightarrow> PostgresBindData \<Rightarrow> PostgresLocalState \<Rightarrow> PostgresGlobalState
     \<Rightarrow> error + (bool \<times> PostgresLocalState \<times> PostgresGlobalState)"
where
  "PostgresParallelStateNext wq bind_data lstate gstate =
     (if page_idx gstate < pages_approx bind_data then
        (let page_max = page_idx gstate + pages_per_task bind_data;
             page_max = (if page_max \<ge> pages_approx bind_data then POSTGRES_TID_MAX else page_max)
         in case PostgresInitInternal wq bind_data lstate (page_idx gstate) page_max of
              Inl e \<Rightarrow> Inl e
            | Inr lstate' \<Rightarrow>
                Inr (True, lstate',
                     gstate \<lparr> page_idx := page_idx gstate + pages_per_task bind_data \<rparr>))
      else Inr (False, lstate \<lparr> done_flag := True \<rparr>, gstate))"

subsection \<open>Reading the wire format\<close>

text \<open>
  A COPY message is a list of bytes and a pointer into it is an integer offset from its
  start. Reading outside the message is undefined.
\<close>

definition load_bytes :: "byte list \<Rightarrow> int \<Rightarrow> nat \<Rightarrow> error + byte list" where
  "load_bytes mem p n =
     (if 0 \<le> p \<and> nat p + n \<le> length mem then Inr (take n (drop (nat p) mem))
      else Inl (UndefinedBehaviour ''read outside of the message''))"

definition be_nat :: "byte list \<Rightarrow> nat" where
  "be_nat bs = foldl (\<lambda>acc b. acc * 256 + unat b) 0 bs"

text \<open>
  Modelled from the spec: \<open>PostgresConversion::LoadInteger\<close>, whose header is not among
  the sources. All multi-byte integers are big-endian on the wire and are decoded by a
  byte copy and a byte-order swap. The pointer is passed by reference and left behind the
  bytes read. The result has the width of the requested type; its signedness is applied
  where the value is used.
\<close>

definition LoadInteger :: "byte list \<Rightarrow> int \<Rightarrow> error + ('a::len word \<times> int)" where
  "LoadInteger mem p =
     (case load_bytes mem p (LENGTH('a) div 8) of
        Inl e \<Rightarrow> Inl e
      | Inr bs \<Rightarrow> Inr (word_of_nat (be_nat bs), p + int (LENGTH('a) div 8)))"

subsection \<open>Numeric values\<close>

definition NBASE :: int where
  "NBASE = 10000"

definition DEC_DIGITS :: int where
  "DEC_DIGITS = 4"

definition NUMERIC_POS :: "16 word" where
  "NUMERIC_POS = 0x0000"

definition NUMERIC_NEG :: "16 word" where
  "NUMERIC_NEG = 0x4000"

definition NUMERIC_NAN :: "16 word" where
  "NUMERIC_NAN = 0xC000"

definition NUMERIC_PINF :: "16 word" where
  "NUMERIC_PINF = 0xD000"

definition NUMERIC_NINF :: "16 word" where
  "NUMERIC_NINF = 0xF000"

definition POWERS_OF_TEN :: "int list" where
  "POWERS_OF_TEN =
     [1, 10, 100, 1000, 10000, 100000, 1000000, 10000000, 100000000, 1000000000,
      10000000000, 100000000000, 1000000000000, 10000000000000, 100000000000000,
      1000000000000000, 10000000000000000, 100000000000000000, 1000000000000000000]"

text \<open>Indexing the static table outside its nineteen entries is undefined.\<close>

definition power_of_ten :: "int \<Rightarrow> error + int" where
  "power_of_ten i =
     (if 0 \<le> i \<and> nat i < length POWERS_OF_TEN then Inr (POWERS_OF_TEN ! nat i)
      else Inl (UndefinedBehaviour ''index outside of POWERS_OF_TEN''))"

record PostgresDecimalConfig =
  scale :: "16 word"
  ndigits :: "16 word"
  weight :: "16 word"
  is_negative :: bool

text \<open>
  \<open>ReadDecimalConfig\<close> takes the pointer by reference; the model returns the advanced
  pointer with the configuration. \<open>weight\<close> is a signed 16-bit value.
\<close>

definition ReadDecimalConfig :: "byte list \<Rightarrow> int \<Rightarrow> error + (PostgresDecimalConfig \<times> int)" where
  "ReadDecimalConfig mem value_ptr =
     (case LoadInteger mem value_ptr of
        Inl e \<Rightarrow> Inl e
      | Inr (ndigits_v, p1) \<Rightarrow>
     (case LoadInteger mem p1 of
        Inl e \<Rightarrow> Inl e
      | Inr (weight_v, p2) \<Rightarrow>
     (case LoadInteger mem p2 of
        Inl e \<Rightarrow> Inl e
      | Inr (sign, p3) \<Rightarrow>
          if \<not> (sign = NUMERIC_POS \<or> sign = NUMERIC_NAN \<or> sign = NUMERIC_PINF
                 \<or> sign = NUMERIC_NINF \<or> sign = NUMERIC_NEG)
          then Inl (NotImplementedException ''Postgres numeric NA/Inf'')
          else
            (case LoadInteger mem p3 of
               Inl e \<Rightarrow> Inl e
             | Inr (scale_v, p4) \<Rightarrow>
                 Inr (\<lparr> scale = scale_v, ndigits = ndigits_v, weight = weight_v,
                        is_negative = (sign = NUMERIC_NEG) \<rparr>, p4)))))"

text \<open>
  \<open>ReadDecimal\<close> is a template over the storage type \<open>T\<close>, here a word of any width
  with wrap-around arithmetic. The loop counters are of type \<open>int\<close>. The first loop is
  \<open>for (i = 1; i <= weight; i++)\<close>, the second \<open>for (i = weight + 2; i < ndigits; i++)\<close>.
  Both have the same body, \<open>next_digit\<close>: multiply by \<open>NBASE\<close>, then add the next
  digit if \<open>i < ndigits\<close>.
\<close>

definition next_digit ::
  "PostgresDecimalConfig \<Rightarrow> byte list \<Rightarrow> int \<Rightarrow> int \<Rightarrow> 'a::len word \<Rightarrow> error + ('a word \<times> int)"
where
  "next_digit config mem i value_ptr part =
     (let part = part * word_of_int NBASE in
      if i < uint (ndigits config) then
        (case (LoadInteger mem value_ptr :: error + (16 word \<times> int)) of
           Inl e \<Rightarrow> Inl e
         | Inr (d, p) \<Rightarrow> Inr (part + ucast d, p))
      else Inr (part, value_ptr))"

function integral_loop ::
  "PostgresDecimalConfig \<Rightarrow> byte list \<Rightarrow> int \<Rightarrow> int \<Rightarrow> 'a::len word \<Rightarrow> error + ('a word \<times> int)"
where
  "integral_loop config mem i value_ptr integral_part =
     (if i \<le> sint (weight config) then
        (case next_digit config mem i value_ptr integral_part of
           Inl e \<Rightarrow> Inl e
         | Inr (integral_part, p) \<Rightarrow> integral_loop config mem (i + 1) p integral_part)
      else Inr (integral_part, value_ptr))"
  by pat_completeness auto
termination
  by (relation "measure (\<lambda>(config, mem, i, p, a). nat (sint (weight config) + 1 - i))") auto

function fractional_loop ::
  "PostgresDecimalConfig \<Rightarrow> byte list \<Rightarrow> int \<Rightarrow> int \<Rightarrow> 'a::len word \<Rightarrow> error + ('a word \<times> int)"
where
  "fractional_loop config mem i value_ptr fractional_part =
     (if i < uint (ndigits config) then
        (case next_digit config mem i value_ptr fractional_part of
           Inl e \<Rightarrow> Inl e
         | Inr (fractional_part, p) \<Rightarrow> fractional_loop config mem (i + 1) p fractional_part)
      else Inr (fractional_part, value_ptr))"
  by pat_completeness auto
termination
  by (relation "measure (\<lambda>(config, mem, i, p, a). nat (uint (ndigits config) - i))") auto

declare integral_loop.simps [simp del]
declare fractional_loop.simps [simp del]

text \<open>
  The division of the fractional part by a power of ten is the signed division of C++,
  which truncates towards zero.
\<close>

definition ReadDecimal :: "PostgresDecimalConfig \<Rightarrow> byte list \<Rightarrow> int \<Rightarrow> error + 'a::len word" where
  "ReadDecimal config mem value_ptr =
     (case power_of_ten (uint (scale config)) of
        Inl e \<Rightarrow> Inl e
      | Inr scale_POWER \<Rightarrow>
          if ndigits config = 0 then Inr 0
          else
            (case (if 0 \<le> sint (weight config) then
                     (case (LoadInteger mem value_ptr :: error + (16 word \<times> int)) of
                        Inl e \<Rightarrow> Inl e
                      | Inr (d, p) \<Rightarrow>
                          (case integral_loop config mem 1 p (ucast d) of
                             Inl e \<Rightarrow> Inl e
                           | Inr (ip, p') \<Rightarrow> Inr (ip * word_of_int scale_POWER, p')))
                   else Inr (0, value_ptr)) of
               Inl e \<Rightarrow> Inl e
             | Inr (integral_part, value_ptr) \<Rightarrow>
            (case (if uint (ndigits config) > sint (weight config) + 1 then
                     (case (LoadInteger mem value_ptr :: error + (16 word \<times> int)) of
                        Inl e \<Rightarrow> Inl e
                      | Inr (d, p) \<Rightarrow>
                          (case fractional_loop config mem (sint (weight config) + 2) p (ucast d) of
                             Inl e \<Rightarrow> Inl e
                           | Inr (fp, p') \<Rightarrow>
                               (let fractional_power =
                                      (uint (ndigits config) - sint (weight config) - 1) * DEC_DIGITS;
                                    fractional_power_correction =
                                      fractional_power - uint (scale config)
                                in if fractional_power_correction \<ge> 0 then
                                     (case power_of_ten fractional_power_correction of
                                        Inl e \<Rightarrow> Inl e
                                      | Inr pw \<Rightarrow> Inr (word_of_int (sint fp sdiv pw)))
                                   else
                                     (case power_of_ten (- fractional_power_correction) of
                                        Inl e \<Rightarrow> Inl e
                                      | Inr pw \<Rightarrow> Inr (fp * word_of_int pw)))))
                   else Inr 0) of
               Inl e \<Rightarrow> Inl e
             | Inr fractional_part \<Rightarrow>
                 (let base_res = integral_part + fractional_part
                  in Inr (if is_negative config then - base_res else base_res)))))"

subsection \<open>Output vectors\<close>

text \<open>
  What a decoder stores in a slot of an output vector. Floating-point values are kept as
  their bit patterns, and an unbounded numeric as the decoded integer with the power of
  ten that divides it. Dates, timestamps, intervals and UUIDs are kept as the wire
  values; their conversion belongs to helpers that are not among the sources.
\<close>

datatype cell =
    C_int16 "16 word"
  | C_int32 "32 word"
  | C_uint32 "32 word"
  | C_int64 "64 word"
  | C_int128 "128 word"
  | C_uint8 "8 word"
  | C_uint16 "16 word"
  | C_bool bool
  | C_float "32 word"
  | C_double "64 word"
  | C_double_quotient "64 word" int
  | C_string "byte list"
  | C_date "32 word"
  | C_time "64 word"
  | C_timestamp "64 word"
  | C_interval "byte list"
  | C_uuid "byte list"
  | C_list_entry nat nat

text \<open>
  A vector is the log of the writes to its slots (the latest first), the slots marked
  NULL, and for a list vector the size of the list and the child vector.
\<close>

datatype Vector =
  Vector (vcells: "(nat \<times> cell) list") (vinvalid: "nat list") (vlist_size: nat)
         (vchild: "Vector option")

definition set_cell :: "Vector \<Rightarrow> nat \<Rightarrow> cell \<Rightarrow> Vector" where
  "set_cell v i c = Vector ((i, c) # vcells v) (vinvalid v) (vlist_size v) (vchild v)"

definition set_invalid :: "Vector \<Rightarrow> nat \<Rightarrow> Vector" where
  "set_invalid v i = Vector (vcells v) (i # vinvalid v) (vlist_size v) (vchild v)"

datatype PhysicalType = INT16 | INT32 | INT64 | INT128 | UINT8 | UINT16 | UINT32 | OTHER_PHYSICAL

text \<open>\<open>LogicalType::InternalType\<close> belongs to the host engine; it is a parameter.\<close>

type_synonym internal_type = "LogicalType \<Rightarrow> PhysicalType"

definition bytes_to_string :: "byte list \<Rightarrow> string" where
  "bytes_to_string bs = map (\<lambda>b. char_of (unat b)) bs"

text \<open>
  Modelled from the spec: \<open>EnumType::GetPos\<close> maps the label to its ordinal in the label
  list of the enum type, and is negative on a miss.
\<close>

fun GetPos :: "string list \<Rightarrow> string \<Rightarrow> int" where
  "GetPos [] s = - 1"
| "GetPos (l # ls) s =
     (if l = s then 0 else (let r = GetPos ls s in if r < 0 then - 1 else r + 1))"

subsection \<open>Decoding one value\<close>

text \<open>
  The loop of the list case over the elements of the array. \<open>elem\<close> decodes one
  element: it is \<open>ProcessValue\<close> at the child type, applied to the pointer, the
  length, the child vector and the slot.
\<close>

function list_loop ::
  "(int \<Rightarrow> idx_t \<Rightarrow> Vector \<Rightarrow> nat \<Rightarrow> error + Vector) \<Rightarrow> byte list \<Rightarrow> nat \<Rightarrow> nat \<Rightarrow> nat
     \<Rightarrow> int \<Rightarrow> Vector \<Rightarrow> error + Vector"
where
  "list_loop elem mem child_offset array_length child_idx value_ptr child_vec =
     (if child_idx < array_length then
        (case (LoadInteger mem value_ptr :: error + (32 word \<times> int)) of
           Inl e \<Rightarrow> Inl e
         | Inr (ele_len, p) \<Rightarrow>
             if ele_len = - 1
             then list_loop elem mem child_offset array_length (child_idx + 1) p
                    (set_invalid child_vec (child_offset + child_idx))
             else
               (case elem p (scast ele_len) child_vec (child_offset + child_idx) of
                  Inl e \<Rightarrow> Inl e
                | Inr child_vec' \<Rightarrow>
                    list_loop elem mem child_offset array_length (child_idx + 1)
                      (p + sint ele_len) child_vec'))
      else Inr child_vec)"
  by pat_completeness auto
termination
  by (relation "measure (\<lambda>(elem, mem, off, n, i, p, v). n - i)") auto

declare list_loop.simps [simp del]

text \<open>The body shared by the cases \<open>BLOB\<close> and \<open>VARCHAR\<close>.\<close>

definition process_string ::
  "PostgresTypeInfo option \<Rightarrow> byte list \<Rightarrow> int \<Rightarrow> idx_t \<Rightarrow> Vector \<Rightarrow> nat \<Rightarrow> error + Vector"
where
  "process_string type_info_p mem value_ptr value_len out_vec output_offset =
     (case type_info_p of
        None \<Rightarrow> Inl (UndefinedBehaviour ''null type_info'')
      | Some ti \<Rightarrow>
     (case (if typname ti = ''jsonb'' then
              (case load_bytes mem value_ptr 1 of
                 Inl e \<Rightarrow> Inl e
               | Inr version \<Rightarrow>
                   if version \<noteq> [1]
                   then Inl (NotImplementedException ''JSONB version number mismatch, expected 1'')
                   else Inr (value_ptr + 1, value_len - 1))
            else Inr (value_ptr, value_len)) of
        Inl e \<Rightarrow> Inl e
      | Inr (p, n) \<Rightarrow>
          (case load_bytes mem p (unat n) of
             Inl e \<Rightarrow> Inl e
           | Inr bs \<Rightarrow> Inr (set_cell out_vec output_offset (C_string bs)))))"

text \<open>The body shared by the cases \<open>TIMESTAMP_TZ\<close> and \<open>TIMESTAMP\<close>.\<close>

definition process_timestamp :: "byte list \<Rightarrow> int \<Rightarrow> Vector \<Rightarrow> nat \<Rightarrow> error + Vector" where
  "process_timestamp mem value_ptr out_vec output_offset =
     (case (LoadInteger mem value_ptr :: error + (64 word \<times> int)) of
        Inl e \<Rightarrow> Inl e
      | Inr (v, p) \<Rightarrow> Inr (set_cell out_vec output_offset (C_timestamp v)))"

text \<open>The decimal case.\<close>

definition process_decimal ::
  "PhysicalType \<Rightarrow> byte list \<Rightarrow> int \<Rightarrow> idx_t \<Rightarrow> Vector \<Rightarrow> nat \<Rightarrow> error + Vector"
where
  "process_decimal physical mem value_ptr value_len out_vec output_offset =
     (if value_len < 2 * 4
      then Inl (InvalidInputException ''Need at least 8 bytes to read a Postgres decimal.'')
      else
        (case ReadDecimalConfig mem value_ptr of
           Inl e \<Rightarrow> Inl e
         | Inr (decimal_config, p) \<Rightarrow>
             (case physical of
                INT16 \<Rightarrow>
                  (case ReadDecimal decimal_config mem p of
                     Inl e \<Rightarrow> Inl e
                   | Inr v \<Rightarrow> Inr (set_cell out_vec output_offset (C_int16 v)))
              | INT32 \<Rightarrow>
                  (case ReadDecimal decimal_config mem p of
                     Inl e \<Rightarrow> Inl e
                   | Inr v \<Rightarrow> Inr (set_cell out_vec output_offset (C_int32 v)))
              | INT64 \<Rightarrow>
                  (case ReadDecimal decimal_config mem p of
                     Inl e \<Rightarrow> Inl e
                   | Inr v \<Rightarrow> Inr (set_cell out_vec output_offset (C_int64 v)))
              | INT128 \<Rightarrow>
                  (case ReadDecimal decimal_config mem p of
                     Inl e \<Rightarrow> Inl e
                   | Inr v \<Rightarrow> Inr (set_cell out_vec output_offset (C_int128 v)))
              | _ \<Rightarrow> Inl (InvalidInputException ''Unsupported decimal storage type''))))"

text \<open>The double case: an unbounded numeric is decoded as a 64-bit decimal.\<close>

definition process_double ::
  "PostgresTypeInfo option \<Rightarrow> byte list \<Rightarrow> int \<Rightarrow> Vector \<Rightarrow> nat \<Rightarrow> error + Vector"
where
  "process_double type_info_p mem value_ptr out_vec output_offset =
     (case type_info_p of
        None \<Rightarrow> Inl (UndefinedBehaviour ''null type_info'')
      | Some ti \<Rightarrow>
          if typname ti = ''numeric'' then
            (case ReadDecimalConfig mem value_ptr of
               Inl e \<Rightarrow> Inl e
             | Inr (config, p) \<Rightarrow>
                 (case ReadDecimal config mem p of
                    Inl e \<Rightarrow> Inl e
                  | Inr val \<Rightarrow>
                      (case power_of_ten (uint (scale config)) of
                         Inl e \<Rightarrow> Inl e
                       | Inr pw \<Rightarrow>
                           Inr (set_cell out_vec output_offset (C_double_quotient val pw)))))
          else
            (case (LoadInteger mem value_ptr :: error + (64 word \<times> int)) of
               Inl e \<Rightarrow> Inl e
             | Inr (v, p) \<Rightarrow> Inr (set_cell out_vec output_offset (C_double v))))"

text \<open>The enum case.\<close>

definition process_enum ::
  "PhysicalType \<Rightarrow> string list \<Rightarrow> byte list \<Rightarrow> int \<Rightarrow> idx_t \<Rightarrow> Vector \<Rightarrow> nat \<Rightarrow> error + Vector"
where
  "process_enum physical labels mem value_ptr value_len out_vec output_offset =
     (case load_bytes mem value_ptr (unat value_len) of
        Inl e \<Rightarrow> Inl e
      | Inr bs \<Rightarrow>
          (let enum_val = bytes_to_string bs; offset = GetPos labels enum_val in
           if offset < 0 then Inl (IOException ''Could not map ENUM value'')
           else
             (case physical of
                UINT8 \<Rightarrow> Inr (set_cell out_vec output_offset (C_uint8 (word_of_int offset)))
              | UINT16 \<Rightarrow> Inr (set_cell out_vec output_offset (C_uint16 (word_of_int offset)))
              | UINT32 \<Rightarrow> Inr (set_cell out_vec output_offset (C_uint32 (word_of_int offset)))
              | _ \<Rightarrow> Inl (InternalException ''ENUM can only have unsigned integers as physical types''))))"

text \<open>
  The list case. \<open>elem\<close> is \<open>ProcessValue\<close> at the child type. The fifth word of the
  envelope is the one compared with 1.
\<close>

definition process_list ::
  "(int \<Rightarrow> idx_t \<Rightarrow> Vector \<Rightarrow> nat \<Rightarrow> error + Vector) \<Rightarrow> byte list \<Rightarrow> int \<Rightarrow> idx_t \<Rightarrow> Vector
     \<Rightarrow> nat \<Rightarrow> error + Vector"
where
  "process_list elem mem value_ptr value_len out_vec output_offset =
     (let child_offset = vlist_size out_vec in
      if value_len < 1
      then Inr (set_cell out_vec output_offset (C_list_entry (vlist_size out_vec) 0))
      else
        (case (LoadInteger mem value_ptr :: error + (32 word \<times> int)) of
           Inl e \<Rightarrow> Inl e
         | Inr (flag_one, p1) \<Rightarrow>
        (case (LoadInteger mem p1 :: error + (32 word \<times> int)) of
           Inl e \<Rightarrow> Inl e
         | Inr (flag_two, p2) \<Rightarrow>
             if flag_one = 0
             then Inr (set_cell out_vec output_offset (C_list_entry child_offset 0))
             else
               (case (LoadInteger mem p2 :: error + (32 word \<times> int)) of
                  Inl e \<Rightarrow> Inl e
                | Inr (value_oid, p3) \<Rightarrow>
               (case (LoadInteger mem p3 :: error + (32 word \<times> int)) of
                  Inl e \<Rightarrow> Inl e
                | Inr (array_length, p4) \<Rightarrow>
               (case (LoadInteger mem p4 :: error + (32 word \<times> int)) of
                  Inl e \<Rightarrow> Inl e
                | Inr (array_dim, p5) \<Rightarrow>
                    if array_dim \<noteq> 1
                    then Inl (NotImplementedException
                                ''Only one-dimensional Postgres arrays are supported'')
                    else
                      (case vchild out_vec of
                         None \<Rightarrow> Inl (InternalException ''vector has no child'')
                       | Some child_vec \<Rightarrow>
                           (case list_loop elem mem child_offset (unat array_length) 0 p5
                                   child_vec of
                              Inl e \<Rightarrow> Inl e
                            | Inr child_vec' \<Rightarrow>
                                Inr (set_cell
                                       (Vector (vcells out_vec) (vinvalid out_vec)
                                          (child_offset + unat array_length) (Some child_vec'))
                                       output_offset
                                       (C_list_entry child_offset (unat array_length)))))))))))"

text \<open>
  \<open>ProcessValue\<close> switches on the target type. Its arguments are the type, the host's
  \<open>InternalType\<close>, the type information (by pointer), the type modifier, the element
  oid, the element information (by pointer), the message, the pointer to the value, the
  length of the value, the output vector and the slot to fill. The recursive call for a
  list element passes the element information as the type information, 0 as the
  element oid and the null pointer as the element information.

  Modelled from the spec: the helpers \<open>LoadFloat\<close>, \<open>LoadDouble\<close>, \<open>LoadDate\<close>,
  \<open>LoadTimestamp\<close>, \<open>LoadInterval\<close> and \<open>LoadUUID\<close> of \<open>PostgresConversion\<close>,
  whose header is not among the sources. They read the big-endian wire value of 4, 8, 4,
  8, 16 and 16 bytes; the slot keeps the wire value.
\<close>

primrec ProcessValue ::
  "LogicalType \<Rightarrow> internal_type \<Rightarrow> PostgresTypeInfo option \<Rightarrow> 32 word \<Rightarrow> 64 word
     \<Rightarrow> PostgresTypeInfo option \<Rightarrow> byte list \<Rightarrow> int \<Rightarrow> idx_t \<Rightarrow> Vector \<Rightarrow> nat \<Rightarrow> error + Vector"
where
  "ProcessValue SMALLINT itype ti am te ei mem value_ptr value_len out_vec output_offset =
     (case (LoadInteger mem value_ptr :: error + (16 word \<times> int)) of
        Inl e \<Rightarrow> Inl e
      | Inr (v, p) \<Rightarrow> Inr (set_cell out_vec output_offset (C_int16 v)))"
| "ProcessValue INTEGER itype ti am te ei mem value_ptr value_len out_vec output_offset =
     (case (LoadInteger mem value_ptr :: error + (32 word \<times> int)) of
        Inl e \<Rightarrow> Inl e
      | Inr (v, p) \<Rightarrow> Inr (set_cell out_vec output_offset (C_int32 v)))"
| "ProcessValue UINTEGER itype ti am te ei mem value_ptr value_len out_vec output_offset =
     (case (LoadInteger mem value_ptr :: error + (32 word \<times> int)) of
        Inl e \<Rightarrow> Inl e
      | Inr (v, p) \<Rightarrow> Inr (set_cell out_vec output_offset (C_uint32 v)))"
| "ProcessValue BIGINT itype ti am te ei mem value_ptr value_len out_vec output_offset =
     (case (LoadInteger mem value_ptr :: error + (64 word \<times> int)) of
        Inl e \<Rightarrow> Inl e
      | Inr (v, p) \<Rightarrow> Inr (set_cell out_vec output_offset (C_int64 v)))"
| "ProcessValue FLOAT itype ti am te ei mem value_ptr value_len out_vec output_offset =
     (case (LoadInteger mem value_ptr :: error + (32 word \<times> int)) of
        Inl e \<Rightarrow> Inl e
      | Inr (v, p) \<Rightarrow> Inr (set_cell out_vec output_offset (C_float v)))"
| "ProcessValue DOUBLE itype ti am te ei mem value_ptr value_len out_vec output_offset =
     process_double ti mem value_ptr out_vec output_offset"
| "ProcessValue BLOB itype ti am te ei mem value_ptr value_len out_vec output_offset =
     process_string ti mem value_ptr value_len out_vec output_offset"
| "ProcessValue VARCHAR itype ti am te ei mem value_ptr value_len out_vec output_offset =
     process_string ti mem value_ptr value_len out_vec output_offset"
| "ProcessValue BOOLEAN itype ti am te ei mem value_ptr value_len out_vec output_offset =
     (case (LoadInteger mem value_ptr :: error + (8 word \<times> int)) of
        Inl e \<Rightarrow> Inl e
      | Inr (v, p) \<Rightarrow> Inr (set_cell out_vec output_offset (C_bool (v > 0))))"
| "ProcessValue (DECIMAL width dscale) itype ti am te ei mem value_ptr value_len out_vec
     output_offset =
     process_decimal (itype (DECIMAL width dscale)) mem value_ptr value_len out_vec output_offset"
| "ProcessValue DATE itype ti am te ei mem value_ptr value_len out_vec output_offset =
     (case (LoadInteger mem value_ptr :: error + (32 word \<times> int)) of
        Inl e \<Rightarrow> Inl e
      | Inr (v, p) \<Rightarrow> Inr (set_cell out_vec output_offset (C_date v)))"
| "ProcessValue TIME itype ti am te ei mem value_ptr value_len out_vec output_offset =
     (case (LoadInteger mem value_ptr :: error + (64 word \<times> int)) of
        Inl e \<Rightarrow> Inl e
      | Inr (v, p) \<Rightarrow> Inr (set_cell out_vec output_offset (C_time v)))"
| "ProcessValue TIME_TZ itype ti am te ei mem value_ptr value_len out_vec output_offset =
     (case (LoadInteger mem value_ptr :: error + (64 word \<times> int)) of
        Inl e \<Rightarrow> Inl e
      | Inr (usec, p) \<Rightarrow>
          (case (LoadInteger mem p :: error + (32 word \<times> int)) of
             Inl e \<Rightarrow> Inl e
           | Inr (tzoffset, p') \<Rightarrow>
               Inr (set_cell out_vec output_offset
                      (C_time (usec + (scast tzoffset :: 64 word) * 1000000)))))"
| "ProcessValue TIMESTAMP_TZ itype ti am te ei mem value_ptr value_len out_vec output_offset =
     process_timestamp mem value_ptr out_vec output_offset"
| "ProcessValue TIMESTAMP itype ti am te ei mem value_ptr value_len out_vec output_offset =
     process_timestamp mem value_ptr out_vec output_offset"
| "ProcessValue (ENUM name labels) itype ti am te ei mem value_ptr value_len out_vec
     output_offset =
     process_enum (itype (ENUM name labels)) labels mem value_ptr value_len out_vec output_offset"
| "ProcessValue INTERVAL itype ti am te ei mem value_ptr value_len out_vec output_offset =
     (if am \<noteq> - 1 then Inl (IOException ''Interval with unsupported typmod'')
      else
        (case load_bytes mem value_ptr 16 of
           Inl e \<Rightarrow> Inl e
         | Inr bs \<Rightarrow> Inr (set_cell out_vec output_offset (C_interval bs))))"
| "ProcessValue UUID itype ti am te ei mem value_ptr value_len out_vec output_offset =
     (case load_bytes mem value_ptr 16 of
        Inl e \<Rightarrow> Inl e
      | Inr bs \<Rightarrow> Inr (set_cell out_vec output_offset (C_uuid bs)))"
| "ProcessValue (LIST child_type) itype ti am te ei mem value_ptr value_len out_vec
     output_offset =
     process_list (ProcessValue child_type itype ei am 0 None mem) mem value_ptr value_len
       out_vec output_offset"
| "ProcessValue INVALID itype ti am te ei mem value_ptr value_len out_vec output_offset =
     Inl (InternalException ''Unsupported Type'')"

subsection \<open>The message buffer\<close>

text \<open>
  \<open>buffer\<close> is the message returned by the client library (\<open>None\<close> is the null
  pointer), \<open>buffer_ptr\<close> the read cursor as an offset into it, \<open>len\<close> the signed
  32-bit length the library reported.
\<close>

record PostgresBinaryBuffer =
  buffer :: "byte list option"
  buffer_ptr :: "int option"
  len :: "32 word"

definition Reset :: "PostgresBinaryBuffer \<Rightarrow> PostgresBinaryBuffer" where
  "Reset b = b \<lparr> buffer := None, buffer_ptr := None, len := 0 \<rparr>"

text \<open>
  \<open>Next\<close> receives what \<open>PQgetCopyData\<close> returned: the message and the length. The
  length is compared as an unsigned 64-bit value.
\<close>

definition Next ::
  "PostgresBinaryBuffer \<Rightarrow> byte list option \<Rightarrow> 32 word \<Rightarrow> error + PostgresBinaryBuffer"
where
  "Next b data ret =
     (let b = Reset b; b = b \<lparr> len := ret, buffer := data \<rparr> in
      if buffer b = None \<or> (scast (len b) :: 64 word) < 2
      then Inl (IOException ''Unable to read binary COPY data from Postgres'')
      else Inr (b \<lparr> buffer_ptr := Some 0 \<rparr>))"

definition Ready :: "PostgresBinaryBuffer \<Rightarrow> bool" where
  "Ready b = (buffer_ptr b \<noteq> None)"

text \<open>
  The string literal that \<open>CheckHeader\<close> passes to \<open>memcmp\<close>. Its backslashes are
  escaped in the source, so its bytes are the characters
  \<open>P G C O P Y \ n \ 3 7 7 \ r \ n \ 0\<close> and the terminating zero.
\<close>

definition header_literal :: "byte list" where
  "header_literal =
     [0x50, 0x47, 0x43, 0x4F, 0x50, 0x59, 0x5C, 0x6E, 0x5C, 0x33, 0x37, 0x37,
      0x5C, 0x72, 0x5C, 0x6E, 0x5C, 0x30, 0x00]"

text \<open>The signature of a binary COPY stream: \<open>PGCOPY\<close>, newline, 0xFF, CR, LF, zero.\<close>

definition copy_signature :: "byte list" where
  "copy_signature = [0x50, 0x47, 0x43, 0x4F, 0x50, 0x59, 0x0A, 0xFF, 0x0D, 0x0A, 0x00]"

text \<open>
  \<open>memcmp\<close> is zero exactly when the compared bytes are equal, and the source raises
  when \<open>!memcmp(...)\<close> holds.
\<close>

definition CheckHeader :: "PostgresBinaryBuffer \<Rightarrow> error + PostgresBinaryBuffer" where
  "CheckHeader b =
     (let magic_len = 11; flags_len = 8; header_len = magic_len + flags_len in
      if sint (len b) < int header_len
      then Inl (IOException ''Unable to read binary COPY data from Postgres, invalid header'')
      else
        (case (buffer b, buffer_ptr b) of
           (Some mem, Some p) \<Rightarrow>
             (case load_bytes mem p magic_len of
                Inl e \<Rightarrow> Inl e
              | Inr bs \<Rightarrow>
                  if bs = take magic_len header_literal
                  then Inl (IOException
                              ''Expected Postgres binary COPY header, got something else'')
                  else Inr (b \<lparr> buffer_ptr := Some (p + int header_len) \<rparr>))
         | _ \<Rightarrow> Inl (UndefinedBehaviour ''null buffer'')))"

text \<open>
  \<open>Read\<close> copies the bytes of a value in memory order and advances the cursor;
  \<open>ntoh\<close> (\<open>ntohs\<close>, \<open>ntohl\<close>) reads them as a big-endian integer.
\<close>

definition Read :: "PostgresBinaryBuffer \<Rightarrow> nat \<Rightarrow> error + (byte list \<times> PostgresBinaryBuffer)" where
  "Read b n =
     (case (buffer b, buffer_ptr b) of
        (Some mem, Some p) \<Rightarrow>
          (case load_bytes mem p n of
             Inl e \<Rightarrow> Inl e
           | Inr bs \<Rightarrow> Inr (bs, b \<lparr> buffer_ptr := Some (p + int n) \<rparr>))
      | _ \<Rightarrow> Inl (UndefinedBehaviour ''null buffer''))"

definition ntoh :: "byte list \<Rightarrow> 'a::len word" where
  "ntoh bs = word_of_nat (be_nat bs)"

subsection \<open>Decoding the fields of a tuple\<close>

text \<open>
  The body of the loop of \<open>PostgresScan\<close> over the output columns: the length prefix,
  the NULL marker, the row id or the value, and the advance of the cursor. The row id
  is computed in signed 64-bit arithmetic from a signed 32-bit page index and a signed
  16-bit tuple index.
\<close>

definition scan_field ::
  "internal_type \<Rightarrow> PostgresBindData \<Rightarrow> column_t \<Rightarrow> PostgresBinaryBuffer \<Rightarrow> Vector \<Rightarrow> nat
     \<Rightarrow> error + (PostgresBinaryBuffer \<times> Vector)"
where
  "scan_field itype bind_data col_idx buf out_vec output_offset =
     (case Read buf 4 of
        Inl e \<Rightarrow> Inl e
      | Inr (bs, buf) \<Rightarrow>
          (let raw_len = (ntoh bs :: 32 word) in
           if raw_len = - 1 then Inr (buf, set_invalid out_vec output_offset)
           else
             (case (buffer buf, buffer_ptr buf) of
                (Some mem, Some value_ptr) \<Rightarrow>
                  (case (if col_idx = COLUMN_IDENTIFIER_ROW_ID then
                           (case (LoadInteger mem value_ptr :: error + (32 word \<times> int)) of
                              Inl e \<Rightarrow> Inl e
                            | Inr (page, p) \<Rightarrow>
                                (case (LoadInteger mem p :: error + (16 word \<times> int)) of
                                   Inl e \<Rightarrow> Inl e
                                 | Inr (tuple, p') \<Rightarrow>
                                     (let page_index = (scast page :: 64 word);
                                          row_in_page = (scast tuple :: 64 word)
                                      in Inr (set_cell out_vec output_offset
                                                (C_int64 (push_bit 16 page_index + row_in_page))))))
                         else
                           (case vector_at (types bind_data) col_idx of
                              Inl e \<Rightarrow> Inl e
                            | Inr t \<Rightarrow>
                                (case vector_at (columns bind_data) col_idx of
                                   Inl e \<Rightarrow> Inl e
                                 | Inr c \<Rightarrow>
                                     ProcessValue t itype (Some (type_info c)) (atttypmod c)
                                       (typelem c) (Some (elem_info c)) mem value_ptr
                                       (scast raw_len) out_vec output_offset))) of
                     Inl e \<Rightarrow> Inl e
                   | Inr out_vec' \<Rightarrow>
                       Inr (buf \<lparr> buffer_ptr := Some (value_ptr + sint raw_len) \<rparr>, out_vec'))
              | _ \<Rightarrow> Inl (UndefinedBehaviour ''null buffer''))))"

function scan_fields ::
  "internal_type \<Rightarrow> PostgresBindData \<Rightarrow> PostgresLocalState \<Rightarrow> PostgresBinaryBuffer
     \<Rightarrow> Vector list \<Rightarrow> nat \<Rightarrow> nat \<Rightarrow> error + (PostgresBinaryBuffer \<times> Vector list)"
where
  "scan_fields itype bind_data lstate buf output output_offset output_idx =
     (if output_idx < length output then
        (case vector_at (column_ids lstate) (word_of_nat output_idx) of
           Inl e \<Rightarrow> Inl e
         | Inr col_idx \<Rightarrow>
             (case scan_field itype bind_data col_idx buf (output ! output_idx) output_offset of
                Inl e \<Rightarrow> Inl e
              | Inr (buf', out_vec') \<Rightarrow>
                  scan_fields itype bind_data lstate buf' (output[output_idx := out_vec'])
                    output_offset (output_idx + 1)))
      else Inr (buf, output))"
  by pat_completeness auto
termination
  by (relation "measure (\<lambda>(itype, bd, l, b, output, off, i). length output - i)") auto

declare scan_fields.simps [simp del]

subsection \<open>Concrete inputs and notions of the specification\<close>

text \<open>
  The quoting of the host engine, for the concrete instances: the text between two quote
  characters, with every embedded quote character doubled.
\<close>

definition WriteQuoted :: write_quoted where
  "WriteQuoted text q = [q] @ concat (map (\<lambda>c. if c = q then [q, q] else [c]) text) @ [q]"

text \<open>A table of one page with an integer column and a column that is cast to text.\<close>

definition example_bind_data :: PostgresBindData where
  "example_bind_data =
     \<lparr> dsn = ''dbname=db'', schema_name = ''public'', table_name = ''t'', pages_approx = 1,
       columns = [], names = [''a'', ''b''], types = [INTEGER, VARCHAR],
       needs_cast = [False, True], pages_per_task = 1000, snapshot = [], in_recovery = False \<rparr>"

definition example_local_state :: PostgresLocalState where
  "example_local_state =
     \<lparr> done_flag = False, exec = False, sql = [], column_ids = [0, 1, COLUMN_IDENTIFIER_ROW_ID],
       filters = None, col_names = [] \<rparr>"

text \<open>A first message of nineteen zero bytes, which does not carry the signature.\<close>

definition garbage_message :: PostgresBinaryBuffer where
  "garbage_message =
     \<lparr> buffer = Some [0, 0, 0, 0, 0, 0, 0, 0, 0, 0, 0, 0, 0, 0, 0, 0, 0, 0, 0],
       buffer_ptr = Some 0, len = 19 \<rparr>"

text \<open>
  In the words of the specification: a filter contains a node outside the supported set
  when it is, or has below a conjunction, a filter of another type or a comparison with
  another operator.
\<close>

fun unsupported :: "TableFilter \<Rightarrow> bool" where
  "unsupported IS_NULL = False"
| "unsupported IS_NOT_NULL = False"
| "unsupported (CONJUNCTION_AND child_filters) = list_ex unsupported child_filters"
| "unsupported (CONJUNCTION_OR child_filters) = list_ex unsupported child_filters"
| "unsupported (CONSTANT_COMPARISON comparison_type constant) = (comparison_type = OTHER_EXPRESSION)"
| "unsupported OTHER_FILTER = True"

text \<open>A filter on the first projected column with a supported and an unsupported child.\<close>

definition example_filter_state :: PostgresLocalState where
  "example_filter_state =
     example_local_state
       \<lparr> filters := Some [(0, CONJUNCTION_AND [CONSTANT_COMPARISON COMPARE_GREATERTHAN ''10'',
                                               OTHER_FILTER])] \<rparr>"

text \<open>The two exceptions of the predicate translation.\<close>

definition translation_errors :: "error set" where
  "translation_errors =
     {InternalException ''Unsupported table filter type'',
      NotImplementedException ''Unsupported expression type''}"

text \<open>
  A server with the table \<open>public.t\<close> of one page: a column of type \<open>text\<close> and a
  column of type \<open>point\<close>, which the type mapper does not know.
\<close>

definition example_rows :: "attribute_row list" where
  "example_rows =
     [\<lparr> r_attname = ''a'', r_atttypmod = - 1, r_nspname = ''pg_catalog'', r_typname = ''text'',
        r_typlen = - 1, r_typtype = ''b'', r_typelem = 0, r_elem_typname = [],
        r_elem_typlen = 0, r_elem_typtype = [] \<rparr>,
      \<lparr> r_attname = ''b'', r_atttypmod = - 1, r_nspname = ''pg_catalog'', r_typname = ''point'',
        r_typlen = 16, r_typtype = ''b'', r_typelem = 701, r_elem_typname = ''float8'',
        r_elem_typlen = 8, r_elem_typtype = ''b'' \<rparr>]"

definition example_server :: PostgresServer where
  "example_server =
     \<lparr> connect = (\<lambda>d. None),
       exec_command = (\<lambda>q. None),
       is_in_recovery = Inr False,
       export_snapshot = Inr ''00000003-0000001B-1'',
       class_rows = (\<lambda>s t. if s = ''public'' \<and> t = ''t'' then Inr [(16384, 1)] else Inr []),
       attribute_rows = (\<lambda>oid. if oid = 16384 then Inr example_rows else Inr []),
       enum_range = (\<lambda>n t. Inr []) \<rparr>"

text \<open>The descriptor that Bind produces for this table.\<close>

definition example_bound :: PostgresBindData where
  "example_bound =
     \<lparr> dsn = ''dbname=db'', schema_name = ''public'', table_name = ''t'', pages_approx = 1,
       columns = map column_info example_rows, names = [''a'', ''b''],
       types = [VARCHAR, VARCHAR], needs_cast = [False, True], pages_per_task = 1000,
       snapshot = ''00000003-0000001B-1'', in_recovery = False \<rparr>"

text \<open>
  The projection expression of a column in the words of the specification: the row-id
  sentinel resolves to \<open>ctid\<close>, every other column is the quoted identifier, with the
  cast appended when the column needs the text cast.
\<close>

definition projection_expression :: "write_quoted \<Rightarrow> PostgresBindData \<Rightarrow> column_t \<Rightarrow> string" where
  "projection_expression wq bd c =
     (if c = COLUMN_IDENTIFIER_ROW_ID then ''ctid''
      else wq (names bd ! unat c) dquote_char @ (if needs_cast bd ! unat c then ''::VARCHAR'' else []))"

text \<open>
  The relation between the cast flags, the target types and the type mapper that Bind
  establishes, column by column.
\<close>

definition columns_bound ::
  "PostgresServer \<Rightarrow> bool list \<Rightarrow> LogicalType list \<Rightarrow> PostgresColumnInfo list \<Rightarrow> string list \<Rightarrow> bool"
where
  "columns_bound srv nc ts cs ns =
     (length ts = length cs \<and> length nc = length cs \<and> length ns = length cs
      \<and> (\<forall>i < length cs.
            if nc ! i then DuckDBType srv (cs ! i) = Inr INVALID \<and> ts ! i = VARCHAR
            else DuckDBType srv (cs ! i) = Inr (ts ! i) \<and> ts ! i \<noteq> INVALID))"

definition bind_invariant :: "PostgresServer \<Rightarrow> PostgresBindData \<Rightarrow> bool" where
  "bind_invariant srv bd =
     columns_bound srv (needs_cast bd) (types bd) (columns bd) (names bd)"

text \<open>
  The wire value of the two-dimensional array \<open>{{1},{2}}\<close> of 32-bit integers: two
  dimensions, no NULLs, element oid 23, then length 2 and lower bound 1 of the first
  dimension, length 1 and lower bound 1 of the second, and the two elements with their
  length prefixes.
\<close>

definition two_dimensional_array :: "byte list" where
  "two_dimensional_array =
     [0x00, 0x00, 0x00, 0x02,  0x00, 0x00, 0x00, 0x00,  0x00, 0x00, 0x00, 0x17,
      0x00, 0x00, 0x00, 0x02,  0x00, 0x00, 0x00, 0x01,
      0x00, 0x00, 0x00, 0x01,  0x00, 0x00, 0x00, 0x01,
      0x00, 0x00, 0x00, 0x04,  0x00, 0x00, 0x00, 0x01,
      0x00, 0x00, 0x00, 0x04,  0x00, 0x00, 0x00, 0x02]"

text \<open>A list vector with nothing written and an empty child vector.\<close>

definition empty_list_vector :: Vector where
  "empty_list_vector = Vector [] [] 0 (Some (Vector [] [] 0 None))"

text \<open>The physical types of the host engine, for the concrete instances.\<close>

definition example_internal_type :: internal_type where
  "example_internal_type t =
     (case t of
        DECIMAL width dscale \<Rightarrow>
          (if width \<le> 4 then INT16 else if width \<le> 9 then INT32
           else if width \<le> 18 then INT64 else INT128)
      | ENUM name labels \<Rightarrow> UINT8
      | _ \<Rightarrow> OTHER_PHYSICAL)"

text \<open>The wire value of the numeric zero with scale 2: no digits, eight bytes of header.\<close>

definition zero_numeric :: "byte list" where
  "zero_numeric = [0x00, 0x00, 0x00, 0x00, 0x00, 0x00, 0x00, 0x02]"

text \<open>
  A field with the row identifier of page 3, tuple 7, and one of page \<open>0x80000000\<close>,
  tuple 1: the length prefix 6, the page index and the tuple index.
\<close>

definition ctid_message :: PostgresBinaryBuffer where
  "ctid_message =
     \<lparr> buffer = Some [0x00, 0x00, 0x00, 0x06, 0x00, 0x00, 0x00, 0x03, 0x00, 0x07],
       buffer_ptr = Some 0, len = 10 \<rparr>"

definition large_ctid_message :: PostgresBinaryBuffer where
  "large_ctid_message =
     \<lparr> buffer = Some [0x00, 0x00, 0x00, 0x06, 0x80, 0x00, 0x00, 0x00, 0x00, 0x01],
       buffer_ptr = Some 0, len = 10 \<rparr>"

text \<open>The wire value of the numeric NaN: no digits, weight 0, sign \<open>0xC000\<close>, scale 0.\<close>

definition nan_numeric :: "byte list" where
  "nan_numeric = [0x00, 0x00, 0x00, 0x00, 0xC0, 0x00, 0x00, 0x00]"


section \<open>Properties\<close>

subsection \<open>The scan coordinator\<close>

lemma word_div_ge1:
  fixes a b :: "64 word"
  assumes "1 \<le> b"
  shows "(1 \<le> a div b) = (b \<le> a)"
proof -
  have b0: "0 < unat b" using assms by (simp add: word_le_nat_alt)
  have "(1 \<le> a div b) = (1 \<le> unat a div unat b)"
    by (simp add: word_le_nat_alt unat_div)
  also have "\<dots> = (unat b \<le> unat a)"
    using b0 by (metis div_greater_zero_iff less_eq_Suc_le One_nat_def)
  finally show ?thesis by (simp add: word_le_nat_alt)
qed

text \<open>
  C6, as the code has it. For a descriptor with at least one page and at least one page
  per task, the worker count that the global state reports is the unsigned quotient
  \<open>pages_approx / pages_per_task\<close>, with no lower bound of 1: it is at least 1 exactly
  when \<open>pages_per_task\<close> does not exceed \<open>pages_approx\<close>.
\<close>

theorem max_threads_quotient:
  assumes "1 \<le> pages_approx bd" and "1 \<le> pages_per_task bd"
  shows "\<exists>g. PostgresInitGlobalState bd = Inr g
           \<and> MaxThreads g = pages_approx bd div pages_per_task bd
           \<and> (1 \<le> MaxThreads g) = (pages_per_task bd \<le> pages_approx bd)"
proof -
  have nz: "pages_per_task bd \<noteq> 0" using assms(2) by auto
  show ?thesis
    using nz word_div_ge1 [OF assms(2), of "pages_approx bd"]
    by (simp add: PostgresInitGlobalState_def PostgresMaxThreads_def MaxThreads_def)
qed

theorem max_threads_quotient_witness:
  "1 \<le> pages_approx (example_bind_data \<lparr> pages_approx := 2500 \<rparr>)
   \<and> 1 \<le> pages_per_task (example_bind_data \<lparr> pages_approx := 2500 \<rparr>)
   \<and> (\<exists>g. PostgresInitGlobalState (example_bind_data \<lparr> pages_approx := 2500 \<rparr>) = Inr g
          \<and> MaxThreads g = 2 \<and> 1 \<le> MaxThreads g)"
proof -
  have h1: "1 \<le> pages_approx (example_bind_data \<lparr> pages_approx := 2500 \<rparr>)"
    by (simp add: example_bind_data_def)
  have h2: "1 \<le> pages_per_task (example_bind_data \<lparr> pages_approx := 2500 \<rparr>)"
    by (simp add: example_bind_data_def)
  have q: "pages_approx (example_bind_data \<lparr> pages_approx := 2500 \<rparr>)
             div pages_per_task (example_bind_data \<lparr> pages_approx := 2500 \<rparr>) = 2"
    by (simp add: example_bind_data_def)
  have le: "pages_per_task (example_bind_data \<lparr> pages_approx := 2500 \<rparr>)
              \<le> pages_approx (example_bind_data \<lparr> pages_approx := 2500 \<rparr>)"
    by (simp add: example_bind_data_def)
  show ?thesis
    using max_threads_quotient [OF h1 h2] h1 h2 q le by auto
qed

text \<open>
  C6 as stated fails: with one page and 1000 pages per task the reported worker count is
  0, not \<open>max(1, 1 / 1000) = 1\<close>.
\<close>

theorem max_threads_counterexample:
  "1 \<le> pages_approx example_bind_data \<and> 1 \<le> pages_per_task example_bind_data
   \<and> PostgresInitGlobalState example_bind_data = Inr \<lparr> page_idx = 0, max_threads = 0 \<rparr>
   \<and> MaxThreads \<lparr> page_idx = 0, max_threads = 0 \<rparr>
       \<noteq> max 1 (pages_approx example_bind_data div pages_per_task example_bind_data)"
  by (simp add: example_bind_data_def PostgresInitGlobalState_def PostgresMaxThreads_def
        MaxThreads_def)















subsection \<open>The COPY header\<close>

lemma check_header_general:
  assumes "19 \<le> sint (len b)" and "buffer b = Some mem" and "buffer_ptr b = Some p"
    and "0 \<le> p" and "nat p + 11 \<le> length mem"
  shows "CheckHeader b =
           (if take 11 (drop (nat p) mem) = take 11 header_literal
            then Inl (IOException ''Expected Postgres binary COPY header, got something else'')
            else Inr (b \<lparr> buffer_ptr := Some (p + 19) \<rparr>))"
  using assms by (simp add: CheckHeader_def load_bytes_def)

lemma check_header_signature:
  assumes "19 \<le> sint (len b)" and "buffer b = Some mem" and "buffer_ptr b = Some p"
    and "0 \<le> p" and "nat p + 11 \<le> length mem"
    and "take 11 (drop (nat p) mem) = copy_signature"
  shows "CheckHeader b = Inr (b \<lparr> buffer_ptr := Some (p + 19) \<rparr>)"
proof -
  have "copy_signature \<noteq> take 11 header_literal"
    by (simp add: copy_signature_def header_literal_def)
  then show ?thesis using assms check_header_general [OF assms(1-5)] by simp
qed

text \<open>
  C1, the code at a failing input. A first message of nineteen zero bytes does not start
  with the signature, yet \<open>CheckHeader\<close> raises nothing and moves the cursor past the
  nineteen bytes: the comparison is negated and its literal is the escaped text, so the
  only messages rejected are those that start with the eleven characters
  \<open>P G C O P Y \ n \ 3 7\<close> (\<open>check_header_general\<close>). A message that starts with
  the signature is accepted (\<open>check_header_signature\<close>).
\<close>

theorem check_header_accepts_garbage:
  "CheckHeader garbage_message = Inr (garbage_message \<lparr> buffer_ptr := Some 19 \<rparr>)"
  by (simp add: CheckHeader_def garbage_message_def load_bytes_def header_literal_def)

subsection \<open>The numeric header\<close>

lemma load16:
  assumes "0 \<le> p" "nat p + 2 \<le> length mem"
  shows "(LoadInteger mem p :: error + (16 word \<times> int))
          = Inr (word_of_nat (be_nat (take 2 (drop (nat p) mem))), p + 2)"
  using assms by (simp add: LoadInteger_def load_bytes_def)

lemma decimal_header_eq:
  assumes "0 \<le> p" and "nat p + 8 \<le> length mem"
  shows "ReadDecimalConfig mem p =
      (if \<not> ((word_of_nat (be_nat (take 2 (drop (nat p + 4) mem))) :: 16 word) = NUMERIC_POS
              \<or> (word_of_nat (be_nat (take 2 (drop (nat p + 4) mem))) :: 16 word) = NUMERIC_NAN
              \<or> (word_of_nat (be_nat (take 2 (drop (nat p + 4) mem))) :: 16 word) = NUMERIC_PINF
              \<or> (word_of_nat (be_nat (take 2 (drop (nat p + 4) mem))) :: 16 word) = NUMERIC_NINF
              \<or> (word_of_nat (be_nat (take 2 (drop (nat p + 4) mem))) :: 16 word) = NUMERIC_NEG)
       then Inl (NotImplementedException ''Postgres numeric NA/Inf'')
       else Inr (\<lparr> scale = word_of_nat (be_nat (take 2 (drop (nat p + 6) mem))),
                   ndigits = word_of_nat (be_nat (take 2 (drop (nat p) mem))),
                   weight = word_of_nat (be_nat (take 2 (drop (nat p + 2) mem))),
                   is_negative =
                     ((word_of_nat (be_nat (take 2 (drop (nat p + 4) mem))) :: 16 word)
                        = NUMERIC_NEG) \<rparr>, p + 8))"
proof -
  have a: "nat (p + 2) = nat p + 2" "nat (p + 2 + 2) = nat p + 4"
    "nat (p + 2 + 2 + 2) = nat p + 6" "p + 2 + 2 + 2 + 2 = p + 8"
    using assms by auto
  have l1: "(LoadInteger mem p :: error + (16 word \<times> int))
          = Inr (word_of_nat (be_nat (take 2 (drop (nat p) mem))), p + 2)"
    using assms by (intro load16) auto
  have l2: "(LoadInteger mem (p + 2) :: error + (16 word \<times> int))
          = Inr (word_of_nat (be_nat (take 2 (drop (nat (p + 2)) mem))), p + 2 + 2)"
    using assms by (intro load16) auto
  have l3: "(LoadInteger mem (p + 2 + 2) :: error + (16 word \<times> int))
          = Inr (word_of_nat (be_nat (take 2 (drop (nat (p + 2 + 2)) mem))), p + 2 + 2 + 2)"
    using assms by (intro load16) auto
  have l4: "(LoadInteger mem (p + 2 + 2 + 2) :: error + (16 word \<times> int))
          = Inr (word_of_nat (be_nat (take 2 (drop (nat (p + 2 + 2 + 2)) mem))), p + 2 + 2 + 2 + 2)"
    using assms by (intro load16) auto
  show ?thesis
    by (simp only: ReadDecimalConfig_def l1 l2 l3 l4 sum.case prod.case a)
qed

lemma decimal_header_sign:
  assumes "0 \<le> p" and "nat p + 8 \<le> length mem"
  shows "(\<exists>c. ReadDecimalConfig mem p = Inr (c, p + 8)) =
         ((word_of_nat (be_nat (take 2 (drop (nat p + 4) mem))) :: 16 word)
            \<in> {NUMERIC_POS, NUMERIC_NEG, NUMERIC_NAN, NUMERIC_PINF, NUMERIC_NINF})"
  unfolding decimal_header_eq [OF assms] by auto

text \<open>
  C2, the code at a failing input. The wire value of the numeric NaN (no digits, sign
  word \<open>0xC000\<close>) is read without an exception, as a non-negative value, and a
  decimal column stores 0 for it. With eight readable bytes the header read succeeds
  exactly when the sign word is one of the five values POS, NEG, NAN, PINF and NINF
  (\<open>decimal_header_sign\<close>), and raises for every other sign word.
\<close>

theorem decimal_header_accepts_nan:
  "ReadDecimalConfig nan_numeric 0
     = Inr (\<lparr> scale = 0, ndigits = 0, weight = 0, is_negative = False \<rparr>, 8)
   \<and> ProcessValue (DECIMAL 10 2) example_internal_type ti am te ei nan_numeric 0 8
        (Vector [] [] 0 None) 0
     = Inr (Vector [(0, C_int64 0)] [] 0 None)"
proof -
  have c: "ReadDecimalConfig nan_numeric 0
     = Inr (\<lparr> scale = 0, ndigits = 0, weight = 0, is_negative = False \<rparr>, 8)"
    by (simp add: ReadDecimalConfig_def LoadInteger_def load_bytes_def be_nat_def nan_numeric_def
        NUMERIC_POS_def NUMERIC_NAN_def NUMERIC_PINF_def NUMERIC_NINF_def NUMERIC_NEG_def)
  have d: "(ReadDecimal \<lparr> scale = 0, ndigits = 0, weight = 0, is_negative = False \<rparr>
              nan_numeric 8 :: error + 64 word) = Inr 0"
    by (simp add: ReadDecimal_def power_of_ten_def POWERS_OF_TEN_def)
  have p: "ProcessValue (DECIMAL 10 2) example_internal_type ti am te ei nan_numeric 0 8
        (Vector [] [] 0 None) 0
     = Inr (Vector [(0, C_int64 0)] [] 0 None)"
    by (simp add: process_decimal_def c d example_internal_type_def set_cell_def)
  from c p show ?thesis by simp
qed

subsection \<open>Predicate translation\<close>

lemma constant_rendering:
  "TransformComparision t = Inr op \<Longrightarrow>
   TransformFilter col (CONSTANT_COMPARISON t c)
     = Inr (col @ '' '' @ op @ '' '' @ [quote_char] @ c @ [quote_char])"
  by simp

text \<open>
  C3, the code at a failing input. The constant \<open>a'b\<close> is rendered between two single
  quotes with its own single quote unchanged: the text of the constant is copied as it
  is (\<open>constant_rendering\<close>), so the fragment is not a well-formed literal.
\<close>

theorem constant_quote_not_escaped:
  "TransformFilter ''c'' (CONSTANT_COMPARISON COMPARE_EQUAL [CHR ''a'', quote_char, CHR ''b''])
     = Inr (''c = '' @ [quote_char, CHR ''a'', quote_char, CHR ''b'', quote_char])"
  by simp

lemma transform_result:
  "(case TransformFilter col f of
      Inl e \<Rightarrow> unsupported f \<and> e \<in> translation_errors
    | Inr s \<Rightarrow> \<not> unsupported f)"
  "(case CreateExpression col fs op of
      Inl e \<Rightarrow> list_ex unsupported fs \<and> e \<in> translation_errors
    | Inr s \<Rightarrow> \<not> list_ex unsupported fs)"
  "(case filter_entries col fs of
      Inl e \<Rightarrow> list_ex unsupported fs \<and> e \<in> translation_errors
    | Inr ss \<Rightarrow> \<not> list_ex unsupported fs)"
proof (induction col f and col fs op and col fs
       rule: TransformFilter_CreateExpression_filter_entries.induct)
  case (5 column_name comparison_type cst)
  then show ?case
    by (cases comparison_type) (simp_all add: translation_errors_def)
qed (auto simp: translation_errors_def split: sum.splits)

lemma transform_unsupported:
  assumes "unsupported f"
  shows "\<exists>e \<in> translation_errors. TransformFilter col f = Inl e"
  using assms transform_result(1) [where col = col and f = f] by (auto split: sum.splits)

lemma transform_supported:
  assumes "\<not> unsupported f"
  shows "\<exists>s. TransformFilter col f = Inr s"
  using assms transform_result(1) [where col = col and f = f] by (auto split: sum.splits)

lemma filter_loop_unsupported:
  assumes "list_ex (\<lambda>entry. unsupported (snd entry)) fs"
  shows "\<exists>e. filter_loop wq bd ids fs = Inl e"
  using assms
proof (induction fs)
  case Nil
  then show ?case by simp
next
  case (Cons entry fs)
  show ?case
  proof (cases "unsupported (snd entry)")
    case True
    show ?thesis
    proof (cases "vector_at ids (fst entry)")
      case (Inl e)
      then show ?thesis by simp
    next
      case r1: (Inr column_id)
      show ?thesis
      proof (cases "vector_at (names bd) column_id")
        case (Inl e)
        with r1 show ?thesis by simp
      next
        case r2: (Inr name)
        obtain e where "TransformFilter (wq name quote_char) (snd entry) = Inl e"
          using transform_unsupported [OF True] by blast
        with r1 r2 show ?thesis by (simp add: Let_def)
      qed
    qed
  next
    case False
    with Cons.prems have "list_ex (\<lambda>entry. unsupported (snd entry)) fs" by simp
    from Cons.IH [OF this] show ?thesis
      by (auto simp: Let_def split: sum.splits)
  qed
qed

lemma init_unsupported:
  assumes "filters l = Some fs" and "list_ex (\<lambda>entry. unsupported (snd entry)) fs"
  shows "\<exists>e. PostgresInitInternal wq bd l lo hi = Inl e"
proof -
  have ne: "fs \<noteq> []" using assms(2) by auto
  obtain e where "filter_loop wq bd (column_ids l) fs = Inl e"
    using filter_loop_unsupported [OF assms(2)] by blast
  then show ?thesis
    using assms(1) ne by (auto simp: PostgresInitInternal_def split: sum.splits)
qed

text \<open>
  C4, as the code has it. A filter that contains a node outside the supported set makes
  the translation raise: an internal exception for a filter of another type, a
  not-implemented exception for a comparison with another operator. A filter of supported
  nodes only is translated. Nothing catches the exception: when a filter of the filter
  set contains such a node, the builder of the worker's COPY query raises, and so does
  the coordinator's call that hands out a task. No query without the filter is built.
\<close>

theorem unsupported_predicate_aborts:
  "(unsupported f \<longrightarrow>
      TransformFilter col f = Inl (InternalException ''Unsupported table filter type'')
      \<or> TransformFilter col f = Inl (NotImplementedException ''Unsupported expression type''))
   \<and> (\<not> unsupported f \<longrightarrow> (\<exists>s. TransformFilter col f = Inr s))
   \<and> (filters l = Some fs \<and> list_ex (\<lambda>entry. unsupported (snd entry)) fs \<longrightarrow>
        (\<exists>e. PostgresInitInternal wq bd l lo hi = Inl e)
        \<and> (page_idx g < pages_approx bd \<longrightarrow> (\<exists>e. PostgresParallelStateNext wq bd l g = Inl e)))"
proof -
  have p1: "TransformFilter col f = Inl (InternalException ''Unsupported table filter type'')
      \<or> TransformFilter col f = Inl (NotImplementedException ''Unsupported expression type'')"
    if "unsupported f"
    using that transform_unsupported [where f = f and col = col]
    by (auto simp: translation_errors_def)
  have p2: "\<exists>s. TransformFilter col f = Inr s" if "\<not> unsupported f"
    using that by (rule transform_supported)
  have p3: "\<exists>e. PostgresInitInternal wq bd l lo hi = Inl e"
    if "filters l = Some fs \<and> list_ex (\<lambda>entry. unsupported (snd entry)) fs"
    using that init_unsupported by blast
  have p4: "\<exists>e. PostgresParallelStateNext wq bd l g = Inl e"
    if a: "filters l = Some fs \<and> list_ex (\<lambda>entry. unsupported (snd entry)) fs"
      and lt: "page_idx g < pages_approx bd"
  proof -
    obtain e where "PostgresInitInternal wq bd l (page_idx g)
                (if pages_approx bd \<le> page_idx g + pages_per_task bd then POSTGRES_TID_MAX
                 else page_idx g + pages_per_task bd) = Inl e"
      using a init_unsupported by blast
    then show ?thesis
      using lt by (simp add: PostgresParallelStateNext_def Let_def)
  qed
  from p1 p2 p3 p4 show ?thesis by blast
qed

theorem unsupported_predicate_aborts_witness:
  "unsupported OTHER_FILTER
   \<and> TransformFilter ''x'' OTHER_FILTER = Inl (InternalException ''Unsupported table filter type'')
   \<and> \<not> unsupported IS_NULL
   \<and> (\<exists>s. TransformFilter ''x'' IS_NULL = Inr s)
   \<and> filters example_filter_state
        = Some [(0, CONJUNCTION_AND [CONSTANT_COMPARISON COMPARE_GREATERTHAN ''10'', OTHER_FILTER])]
   \<and> list_ex (\<lambda>entry. unsupported (snd entry))
        [(0 :: idx_t, CONJUNCTION_AND [CONSTANT_COMPARISON COMPARE_GREATERTHAN ''10'', OTHER_FILTER])]
   \<and> (\<exists>e. PostgresInitInternal WriteQuoted example_bind_data example_filter_state 0
             POSTGRES_TID_MAX = Inl e)
   \<and> page_idx \<lparr> page_idx = 0, max_threads = 0 \<rparr> < pages_approx example_bind_data
   \<and> (\<exists>e. PostgresParallelStateNext WriteQuoted example_bind_data example_filter_state
             \<lparr> page_idx = 0, max_threads = 0 \<rparr> = Inl e)"
proof -
  let ?fs = "[(0::idx_t, CONJUNCTION_AND [CONSTANT_COMPARISON COMPARE_GREATERTHAN ''10'', OTHER_FILTER])]"
  have h1: "unsupported OTHER_FILTER" by simp
  have h2: "\<not> unsupported IS_NULL" by simp
  have h3: "filters example_filter_state = Some ?fs"
    by (simp add: example_filter_state_def)
  have h4: "list_ex (\<lambda>entry. unsupported (snd entry)) ?fs" by simp
  have h5: "page_idx \<lparr> page_idx = 0, max_threads = 0 \<rparr> < pages_approx example_bind_data"
    by (simp add: example_bind_data_def)
  have t1: "TransformFilter ''x'' OTHER_FILTER = Inl (InternalException ''Unsupported table filter type'')"
    by simp
  note a = unsupported_predicate_aborts [of OTHER_FILTER "''x''" example_filter_state ?fs
      WriteQuoted example_bind_data 0 POSTGRES_TID_MAX "\<lparr> page_idx = 0, max_threads = 0 \<rparr>"]
  note b = unsupported_predicate_aborts [of IS_NULL "''x''" example_filter_state ?fs
      WriteQuoted example_bind_data 0 POSTGRES_TID_MAX "\<lparr> page_idx = 0, max_threads = 0 \<rparr>"]
  have c1: "\<exists>e. PostgresInitInternal WriteQuoted example_bind_data example_filter_state 0
             POSTGRES_TID_MAX = Inl e"
    using a h3 h4 by blast
  have c2: "\<exists>e. PostgresParallelStateNext WriteQuoted example_bind_data example_filter_state
             \<lparr> page_idx = 0, max_threads = 0 \<rparr> = Inl e"
    using a h3 h4 h5 by blast
  have c3: "\<exists>s. TransformFilter ''x'' IS_NULL = Inr s"
    using b h2 by blast
  from h1 h2 h3 h4 h5 t1 c1 c2 c3 show ?thesis by blast
qed

text \<open>
  C4 as stated fails: with the filter \<open>x > 10 AND (unsupported)\<close> on the first column,
  building the query of the task raises the internal exception, and the call of the
  coordinator raises it too; the scan does not proceed without the filter.
\<close>

theorem unsupported_predicate_counterexample:
  "PostgresInitInternal WriteQuoted example_bind_data example_filter_state 0 POSTGRES_TID_MAX
     = Inl (InternalException ''Unsupported table filter type'')
   \<and> PostgresParallelStateNext WriteQuoted example_bind_data example_filter_state
        \<lparr> page_idx = 0, max_threads = 0 \<rparr>
     = Inl (InternalException ''Unsupported table filter type'')"
  by (simp add: PostgresParallelStateNext_def PostgresInitInternal_def example_bind_data_def
        example_filter_state_def example_local_state_def COLUMN_IDENTIFIER_ROW_ID_def
        vector_at_def Let_def)

subsection \<open>Bind and the projection list\<close>

lemma columns_bound_step:
  assumes inv: "columns_bound srv nc ts cs ns" and t: "DuckDBType srv info = Inr ty"
  shows "columns_bound srv (nc @ [ty = INVALID]) (ts @ [if ty = INVALID then VARCHAR else ty])
           (cs @ [info]) (ns @ [n])"
proof -
  let ?P = "\<lambda>nc ts cs i.
              if nc ! i then DuckDBType srv (cs ! i) = Inr INVALID \<and> ts ! i = VARCHAR
              else DuckDBType srv (cs ! i) = Inr (ts ! i) \<and> ts ! i \<noteq> INVALID"
  have len: "length ts = length cs" "length nc = length cs" "length ns = length cs"
    using inv by (simp_all add: columns_bound_def)
  have old: "?P nc ts cs i" if "i < length cs" for i
    using inv that unfolding columns_bound_def by blast
  have new: "?P (nc @ [ty = INVALID]) (ts @ [if ty = INVALID then VARCHAR else ty]) (cs @ [info]) i"
    if "i < length (cs @ [info])" for i
  proof (cases "i < length cs")
    case True
    have e: "(nc @ [ty = INVALID]) ! i = nc ! i"
      "(ts @ [if ty = INVALID then VARCHAR else ty]) ! i = ts ! i"
      "(cs @ [info]) ! i = cs ! i"
      using True len by (simp_all add: nth_append)
    show ?thesis unfolding e using old [OF True] .
  next
    case False
    then have i: "i = length cs" using that by simp
    have e: "(nc @ [ty = INVALID]) ! i = (ty = INVALID)"
      "(ts @ [if ty = INVALID then VARCHAR else ty]) ! i = (if ty = INVALID then VARCHAR else ty)"
      "(cs @ [info]) ! i = info"
      using i len by (simp_all add: nth_append)
    show ?thesis unfolding e using t by (cases "ty = INVALID") simp_all
  qed
  have l: "length (ts @ [if ty = INVALID then VARCHAR else ty]) = length (cs @ [info])"
    "length (nc @ [ty = INVALID]) = length (cs @ [info])"
    "length (ns @ [n]) = length (cs @ [info])"
    using len by simp_all
  show ?thesis
    unfolding columns_bound_def using l new by blast
qed

lemma bind_invariant_step:
  assumes inv: "bind_invariant srv bd" and t: "DuckDBType srv info = Inr ty"
  shows "bind_invariant srv
           (bd \<lparr> names := names bd @ [n], needs_cast := needs_cast bd @ [ty = INVALID],
                 types := types bd @ [if ty = INVALID then VARCHAR else ty],
                 columns := columns bd @ [info] \<rparr>)"
  using columns_bound_step [OF inv [unfolded bind_invariant_def] t, of n]
  by (simp add: bind_invariant_def)

lemma bind_columns_invariant:
  assumes "bind_columns srv rows bd = Inr bd'" and "bind_invariant srv bd"
  shows "bind_invariant srv bd'"
  using assms
proof (induction rows arbitrary: bd)
  case Nil
  then show ?case by simp
next
  case (Cons r rows)
  obtain ty where ty: "DuckDBType srv (column_info r) = Inr ty"
    using Cons.prems(1) by (cases "DuckDBType srv (column_info r)") (simp_all add: Let_def)
  let ?bd = "bd \<lparr> names := names bd @ [attname (column_info r)],
                   needs_cast := needs_cast bd @ [ty = INVALID],
                   types := types bd @ [if ty = INVALID then VARCHAR else ty],
                   columns := columns bd @ [column_info r] \<rparr>"
  have step: "bind_columns srv rows ?bd = Inr bd'"
    using Cons.prems(1) ty by (cases "ty = INVALID") (simp_all add: Let_def)
  have "bind_invariant srv ?bd"
    using bind_invariant_step [OF Cons.prems(2) ty] .
  with step show ?case by (rule Cons.IH)
qed

lemma prepare_bind_columns:
  assumes "PrepareBind srv bd0 = Inr bd"
  shows "\<exists>rows rec snap pages.
           bind_columns srv rows
             (bd0 \<lparr> in_recovery := rec, snapshot := snap, pages_approx := pages \<rparr>) = Inr bd"
proof -
  obtain rec where r1: "is_in_recovery srv = Inr rec"
    using assms by (cases "is_in_recovery srv") (simp_all add: PrepareBind_def)
  obtain snap where r2: "(if \<not> rec then export_snapshot srv else Inr []) = Inr snap"
    using assms r1
    by (cases "if \<not> rec then export_snapshot srv else Inr []") (simp_all add: PrepareBind_def)
  obtain res where r3: "class_rows srv (schema_name bd0) (table_name bd0) = Inr res"
    using assms r1 r2
    by (cases "class_rows srv (schema_name bd0) (table_name bd0)")
       (simp_all add: PrepareBind_def Let_def)
  obtain oid pages where r4: "res = [(oid, pages)]"
    using assms r1 r2 r3
    by (cases res rule: list.exhaust [case_names Nil Cons])
       (auto simp: PrepareBind_def Let_def split: list.splits)
  obtain rows where r5: "attribute_rows srv oid = Inr rows"
    using assms r1 r2 r3 r4
    by (cases "attribute_rows srv oid") (simp_all add: PrepareBind_def Let_def)
  have "bind_columns srv rows
          (bd0 \<lparr> in_recovery := rec, snapshot := snap, pages_approx := pages \<rparr>) = Inr bd"
    using assms r1 r2 r3 r4 r5
    by (cases "rows = []") (simp_all add: PrepareBind_def Let_def)
  then show ?thesis by blast
qed

lemma bind_invariant_result:
  assumes "PostgresBind srv ppt d s t = Inr bd"
  shows "bind_invariant srv bd"
proof -
  let ?bd0 = "\<lparr> dsn = d, schema_name = s, table_name = t, pages_approx = 0,
         columns = [], names = [], types = [], needs_cast = [],
         pages_per_task = ppt, snapshot = [], in_recovery = False \<rparr>"
  have "PrepareBind srv ?bd0 = Inr bd"
    using assms by (simp add: PostgresBind_def Let_def split: option.splits)
  then obtain rows rec snap pages where
    b: "bind_columns srv rows
          (?bd0 \<lparr> in_recovery := rec, snapshot := snap, pages_approx := pages \<rparr>) = Inr bd"
    using prepare_bind_columns by blast
  have "bind_invariant srv (?bd0 \<lparr> in_recovery := rec, snapshot := snap, pages_approx := pages \<rparr>)"
    by (simp add: bind_invariant_def columns_bound_def)
  with b show ?thesis by (rule bind_columns_invariant)
qed


lemma projection_loop_fold:
  assumes "projection_loop wq bd cs acc = Inr r"
  shows "r = foldl (\<lambda>a p. (if a \<noteq> [] then a @ '', '' else a) @ p) acc
               (map (projection_expression wq bd) cs)"
  using assms
proof (induction cs arbitrary: acc)
  case Nil
  then show ?case by simp
next
  case (Cons c cs)
  let ?acc = "if acc \<noteq> [] then acc @ '', '' else acc"
  show ?case
  proof (cases "c = COLUMN_IDENTIFIER_ROW_ID")
    case True
    then have "projection_loop wq bd cs (?acc @ ''ctid'') = Inr r"
      using Cons.prems by (simp add: Let_def)
    from Cons.IH [OF this] True show ?thesis
      by (simp add: projection_expression_def)
  next
    case False
    have r1: "unat c < length (names bd)"
      using Cons.prems False by (auto simp: Let_def vector_at_def split: if_splits)
    have r2: "unat c < length (needs_cast bd)"
      using Cons.prems False r1 by (auto simp: Let_def vector_at_def split: if_splits)
    have "projection_loop wq bd cs (?acc @ projection_expression wq bd c) = Inr r"
      using Cons.prems False r1 r2
      by (cases "needs_cast bd ! unat c"; cases "acc = []")
         (simp_all add: Let_def vector_at_def projection_expression_def)
    from Cons.IH [OF this] show ?thesis by simp
  qed
qed

lemma fold_separator:
  assumes "a \<noteq> []"
  shows "foldl (\<lambda>a p. (if a \<noteq> [] then a @ sep else a) @ p) a ps
           = a @ concat (map (\<lambda>p. sep @ p) ps)"
  using assms by (induction ps arbitrary: a) simp_all

lemma Join_concat: "Join (p # ps) sep = p @ concat (map (\<lambda>q. sep @ q) ps)"
  by (induction ps arbitrary: p) simp_all

lemma fold_Join:
  assumes "\<forall>p \<in> set ps. p \<noteq> []"
  shows "foldl (\<lambda>a p. (if a \<noteq> [] then a @ sep else a) @ p) [] ps = Join ps sep"
proof (cases ps)
  case Nil
  then show ?thesis by simp
next
  case (Cons p ps')
  then have "p \<noteq> []" using assms by simp
  then show ?thesis using Cons by (simp add: fold_separator Join_concat)
qed

lemma projection_expression_nonempty:
  assumes "\<forall>s q. wq s q \<noteq> []"
  shows "projection_expression wq bd c \<noteq> []"
  using assms by (simp add: projection_expression_def)

lemma projection_loop_Join:
  assumes "\<forall>s q. wq s q \<noteq> []" and "projection_loop wq bd cs [] = Inr r"
  shows "r = Join (map (projection_expression wq bd) cs) '', ''"
proof -
  have "\<forall>p \<in> set (map (projection_expression wq bd) cs). p \<noteq> []"
    using projection_expression_nonempty [OF assms(1)] by auto
  from fold_Join [OF this] projection_loop_fold [OF assms(2)] show ?thesis by simp
qed

lemma init_projection:
  assumes "\<forall>s q. wq s q \<noteq> []" and "PostgresInitInternal wq bd l lo hi = Inr l'"
  shows "\<exists>filter_string.
           sql l' = copy_statement (Join (map (projection_expression wq bd) (column_ids l)) '', '')
                      (wq (schema_name bd) dquote_char) (wq (table_name bd) dquote_char)
                      lo hi filter_string"
proof -
  obtain r where r: "projection_loop wq bd (column_ids l) [] = Inr r"
    using assms(2)
    by (cases "projection_loop wq bd (column_ids l) []") (simp_all add: PostgresInitInternal_def)
  have j: "r = Join (map (projection_expression wq bd) (column_ids l)) '', ''"
    using projection_loop_Join [OF assms(1) r] .
  show ?thesis
    using assms(2) r j
    by (auto simp: PostgresInitInternal_def split: sum.splits)
qed

text \<open>
  C5, as the code has it. For every column of a descriptor that Bind produces, the cast
  flag is set exactly when the type mapper returns \<open>INVALID\<close>, and then the target
  type is \<open>VARCHAR\<close>; otherwise the target type is the one the mapper returns, which
  can be \<open>VARCHAR\<close> as well. In the COPY query of a worker the projection list is
  the list of the projection expressions of the requested columns, separated by commas,
  and the expression of a column with the cast flag is its quoted name followed by
  \<open>::VARCHAR\<close> (for a quoting function that never returns the empty string).
\<close>

theorem bind_cast_flags:
  assumes "PostgresBind srv ppt d s t = Inr bd"
  shows "length (types bd) = length (columns bd) \<and> length (needs_cast bd) = length (columns bd)
     \<and> length (names bd) = length (columns bd)
     \<and> (\<forall>i < length (columns bd).
           if needs_cast bd ! i
           then DuckDBType srv (columns bd ! i) = Inr INVALID \<and> types bd ! i = VARCHAR
           else DuckDBType srv (columns bd ! i) = Inr (types bd ! i) \<and> types bd ! i \<noteq> INVALID)
     \<and> (\<forall>wq l lo hi l'.
           (\<forall>s q. wq s q \<noteq> []) \<and> PostgresInitInternal wq bd l lo hi = Inr l' \<longrightarrow>
           (\<exists>filter_string.
              sql l' = copy_statement
                         (Join (map (projection_expression wq bd) (column_ids l)) '', '')
                         (wq (schema_name bd) dquote_char) (wq (table_name bd) dquote_char)
                         lo hi filter_string))
     \<and> (\<forall>wq c. c \<noteq> COLUMN_IDENTIFIER_ROW_ID \<and> needs_cast bd ! unat c \<longrightarrow>
           projection_expression wq bd c = wq (names bd ! unat c) dquote_char @ ''::VARCHAR'')"
proof -
  have a: "columns_bound srv (needs_cast bd) (types bd) (columns bd) (names bd)"
    using bind_invariant_result [OF assms] by (simp add: bind_invariant_def)
  have b: "\<forall>wq l lo hi l'.
           (\<forall>s q. wq s q \<noteq> []) \<and> PostgresInitInternal wq bd l lo hi = Inr l' \<longrightarrow>
           (\<exists>filter_string.
              sql l' = copy_statement
                         (Join (map (projection_expression wq bd) (column_ids l)) '', '')
                         (wq (schema_name bd) dquote_char) (wq (table_name bd) dquote_char)
                         lo hi filter_string)"
    using init_projection by blast
  have c: "\<forall>wq c. c \<noteq> COLUMN_IDENTIFIER_ROW_ID \<and> needs_cast bd ! unat c \<longrightarrow>
           projection_expression wq bd c = wq (names bd ! unat c) dquote_char @ ''::VARCHAR''"
    by (simp add: projection_expression_def)
  from a [unfolded columns_bound_def] b c show ?thesis by blast
qed

lemma example_bind:
  "PostgresBind example_server 1000 ''dbname=db'' ''public'' ''t'' = Inr example_bound"
  by (simp add: PostgresBind_def PrepareBind_def example_server_def example_rows_def
        example_bound_def column_info_def DuckDBType_def StartsWith_def Let_def)

text \<open>
  C5 as stated fails: a column of the remote type \<open>text\<close> has the target type
  \<open>VARCHAR\<close> and no cast flag.
\<close>

theorem bind_cast_flags_counterexample:
  "PostgresBind example_server 1000 ''dbname=db'' ''public'' ''t'' = Inr example_bound
   \<and> types example_bound ! 0 = VARCHAR \<and> \<not> needs_cast example_bound ! 0"
  by (simp add: PostgresBind_def PrepareBind_def example_server_def example_rows_def
        example_bound_def column_info_def DuckDBType_def StartsWith_def Let_def)


theorem bind_cast_flags_witness:
  "PostgresBind example_server 1000 ''dbname=db'' ''public'' ''t'' = Inr example_bound
   \<and> needs_cast example_bound ! 1
   \<and> DuckDBType example_server (columns example_bound ! 1) = Inr INVALID
   \<and> types example_bound ! 1 = VARCHAR
   \<and> \<not> needs_cast example_bound ! 0
   \<and> DuckDBType example_server (columns example_bound ! 0) = Inr (types example_bound ! 0)
   \<and> (\<forall>s q. WriteQuoted s q \<noteq> [])
   \<and> (\<exists>l' filter_string.
         PostgresInitInternal WriteQuoted example_bound example_local_state 0 POSTGRES_TID_MAX
           = Inr l'
         \<and> sql l' = copy_statement
                      (WriteQuoted ''a'' dquote_char @ '', '' @ WriteQuoted ''b'' dquote_char
                         @ ''::VARCHAR'' @ '', ctid'')
                      (WriteQuoted ''public'' dquote_char) (WriteQuoted ''t'' dquote_char)
                      0 POSTGRES_TID_MAX filter_string)"
proof -
  note t = bind_cast_flags [OF example_bind]
  have len: "length (columns example_bound) = 2"
    by (simp add: example_bound_def example_rows_def)
  have n1: "needs_cast example_bound ! 1" and n0: "\<not> needs_cast example_bound ! 0"
    by (simp_all add: example_bound_def)
  have i1: "(1::nat) < length (columns example_bound)" and i0: "(0::nat) < length (columns example_bound)"
    using len by simp_all
  have c1: "DuckDBType example_server (columns example_bound ! 1) = Inr INVALID
            \<and> types example_bound ! 1 = VARCHAR"
    using t i1 n1 by (metis (full_types))
  have c0: "DuckDBType example_server (columns example_bound ! 0) = Inr (types example_bound ! 0)"
    using t i0 n0 by (metis (full_types))
  have wq: "\<forall>s q. WriteQuoted s q \<noteq> []" by (simp add: WriteQuoted_def)
  have "\<exists>l'. PostgresInitInternal WriteQuoted example_bound example_local_state 0
          POSTGRES_TID_MAX = Inr l'"
    by (simp add: PostgresInitInternal_def example_bound_def example_local_state_def
          COLUMN_IDENTIFIER_ROW_ID_def vector_at_def Let_def)
  then obtain l' where init:
    "PostgresInitInternal WriteQuoted example_bound example_local_state 0 POSTGRES_TID_MAX = Inr l'"
    by blast
  have j: "Join (map (projection_expression WriteQuoted example_bound)
                  (column_ids example_local_state)) '', ''
           = WriteQuoted ''a'' dquote_char @ '', '' @ WriteQuoted ''b'' dquote_char
               @ ''::VARCHAR'' @ '', ctid''"
    by (simp add: projection_expression_def example_bound_def example_local_state_def
          COLUMN_IDENTIFIER_ROW_ID_def)
  have n: "schema_name example_bound = ''public''" "table_name example_bound = ''t''"
    by (simp_all add: example_bound_def)
  from t wq init obtain filter_string where
    "sql l' = copy_statement
                (Join (map (projection_expression WriteQuoted example_bound)
                        (column_ids example_local_state)) '', '')
                (WriteQuoted (schema_name example_bound) dquote_char)
                (WriteQuoted (table_name example_bound) dquote_char)
                0 POSTGRES_TID_MAX filter_string"
    by blast
  then have s: "sql l' = copy_statement
                      (WriteQuoted ''a'' dquote_char @ '', '' @ WriteQuoted ''b'' dquote_char
                         @ ''::VARCHAR'' @ '', ctid'')
                      (WriteQuoted ''public'' dquote_char) (WriteQuoted ''t'' dquote_char)
                      0 POSTGRES_TID_MAX filter_string"
    unfolding j n .
  from example_bind n1 n0 c1 c0 wq init s show ?thesis by blast
qed

subsection \<open>The array envelope\<close>

lemma load32_two_dim:
  "(LoadInteger two_dimensional_array 0 :: error + (32 word \<times> int)) = Inr (2, 4)"
  "(LoadInteger two_dimensional_array 4 :: error + (32 word \<times> int)) = Inr (0, 8)"
  "(LoadInteger two_dimensional_array 8 :: error + (32 word \<times> int)) = Inr (23, 12)"
  "(LoadInteger two_dimensional_array 12 :: error + (32 word \<times> int)) = Inr (2, 16)"
  "(LoadInteger two_dimensional_array 16 :: error + (32 word \<times> int)) = Inr (1, 20)"
  "(LoadInteger two_dimensional_array 20 :: error + (32 word \<times> int)) = Inr (1, 24)"
  "(LoadInteger two_dimensional_array 24 :: error + (32 word \<times> int)) = Inr (1, 28)"
  "(LoadInteger two_dimensional_array 25 :: error + (32 word \<times> int)) = Inr (256, 29)"
  "(LoadInteger two_dimensional_array 29 :: error + (32 word \<times> int)) = Inr (1024, 33)"
  by (simp_all add: LoadInteger_def load_bytes_def two_dimensional_array_def be_nat_def)

text \<open>
  C7, the code at a failing input. The wire value of a two-dimensional array has the
  first word 2, yet it is decoded without an exception, as a list of two elements: the
  word compared with 1 is the fifth word of the envelope (the lower bound of the first
  dimension), not the first, and the element oid is compared in a debug assertion only.
  An envelope with the first word 0 gives the empty list (\<open>empty_array\<close>), and a fifth
  word other than 1 raises (\<open>fifth_word_checked\<close>).
\<close>

theorem two_dimensional_array_decoded:
  "ProcessValue (LIST INTEGER) itype ti am 23 ei two_dimensional_array 0 44 empty_list_vector 0
     = Inr (Vector [(0, C_list_entry 0 2)] [] 2
              (Some (Vector [(1, C_int32 1024), (0, C_int32 1)] [] 0 None)))"
  by (simp add: process_list_def load32_two_dim empty_list_vector_def list_loop.simps
        set_cell_def Let_def)

lemma empty_array:
  assumes "1 \<le> value_len"
    and "(LoadInteger mem p :: error + (32 word \<times> int)) = Inr (0, p1)"
    and "(LoadInteger mem p1 :: error + (32 word \<times> int)) = Inr (flag_two, p2)"
  shows "ProcessValue (LIST t) itype ti am te ei mem p value_len v off
           = Inr (set_cell v off (C_list_entry (vlist_size v) 0))"
proof -
  have "\<not> value_len < 1" using assms(1) by (auto simp: word_less_1)
  then show ?thesis using assms(2,3) by (simp add: process_list_def)
qed

lemma fifth_word_checked:
  assumes "1 \<le> value_len"
    and "(LoadInteger mem p :: error + (32 word \<times> int)) = Inr (flag_one, p1)"
    and "(LoadInteger mem p1 :: error + (32 word \<times> int)) = Inr (flag_two, p2)"
    and "flag_one \<noteq> 0"
    and "(LoadInteger mem p2 :: error + (32 word \<times> int)) = Inr (value_oid, p3)"
    and "(LoadInteger mem p3 :: error + (32 word \<times> int)) = Inr (array_length, p4)"
    and "(LoadInteger mem p4 :: error + (32 word \<times> int)) = Inr (array_dim, p5)"
    and "array_dim \<noteq> 1"
  shows "ProcessValue (LIST t) itype ti am te ei mem p value_len v off
           = Inl (NotImplementedException ''Only one-dimensional Postgres arrays are supported'')"
proof -
  have "\<not> value_len < 1" using assms(1) by (auto simp: word_less_1)
  then show ?thesis using assms(2-) by (simp add: process_list_def)
qed

subsection \<open>The length guard of the decimal case\<close>

lemma take_drop_prefix:
  assumes "k + 2 \<le> n"
  shows "take 2 (drop k (take n xs)) = take 2 (drop k xs)"
  using assms by (simp add: drop_take min_def)

text \<open>
  C10. A decimal field whose length is below 8 raises the invalid-input exception,
  whatever the message holds, so before any byte is read. With a length of at least 8
  and the payload inside the message, the header read gives the same result on the
  message cut off at the end of the payload: it reads the eight header bytes only, and it
  returns the configuration with the pointer advanced by 8 or raises for the sign word.
\<close>

theorem decimal_length_guard:
  "(value_len < 8 \<longrightarrow>
      ProcessValue (DECIMAL width dscale) itype ti am te ei mem p value_len v off
        = Inl (InvalidInputException ''Need at least 8 bytes to read a Postgres decimal.''))
   \<and> (8 \<le> value_len \<and> 0 \<le> p \<and> nat p + unat value_len \<le> length mem \<longrightarrow>
        ReadDecimalConfig (take (nat p + unat value_len) mem) p = ReadDecimalConfig mem p
        \<and> (\<exists>c. ReadDecimalConfig mem p = Inr (c, p + 8)
              \<or> ReadDecimalConfig mem p = Inl (NotImplementedException ''Postgres numeric NA/Inf'')))"
proof (intro conjI impI)
  assume "value_len < 8"
  then show "ProcessValue (DECIMAL width dscale) itype ti am te ei mem p value_len v off
        = Inl (InvalidInputException ''Need at least 8 bytes to read a Postgres decimal.'')"
    by (simp add: process_decimal_def)
next
  assume a: "8 \<le> value_len \<and> 0 \<le> p \<and> nat p + unat value_len \<le> length mem"
  then have n: "8 \<le> unat value_len" by (simp add: word_le_nat_alt)
  let ?n = "nat p + unat value_len"
  have l1: "nat p + 8 \<le> length mem" using a n by simp
  have l2: "nat p + 8 \<le> length (take ?n mem)" using a n by simp
  have p0: "0 \<le> p" using a by simp
  have t: "take 2 (drop (nat p + k) (take ?n mem)) = take 2 (drop (nat p + k) mem)"
    if "k \<le> 6" for k
    using that n by (intro take_drop_prefix) simp
  have t0: "take 2 (drop (nat p) (take ?n mem)) = take 2 (drop (nat p) mem)"
    using t [of 0] by simp
  show "ReadDecimalConfig (take ?n mem) p = ReadDecimalConfig mem p"
    unfolding decimal_header_eq [OF p0 l1] decimal_header_eq [OF p0 l2]
    by (simp only: t t0 order_refl numeral_le_iff semiring_norm)
  show "\<exists>c. ReadDecimalConfig mem p = Inr (c, p + 8)
              \<or> ReadDecimalConfig mem p = Inl (NotImplementedException ''Postgres numeric NA/Inf'')"
    unfolding decimal_header_eq [OF p0 l1] by (simp split: if_splits)
qed


theorem decimal_length_guard_witness:
  "(4 :: idx_t) < 8
   \<and> ProcessValue (DECIMAL 10 2) example_internal_type None (- 1) 0 None [0x00, 0x00, 0x00, 0x00]
         0 4 (Vector [] [] 0 None) 0
       = Inl (InvalidInputException ''Need at least 8 bytes to read a Postgres decimal.'')
   \<and> (8 :: idx_t) \<le> 8 \<and> (0 :: int) \<le> 0 \<and> nat 0 + unat (8 :: idx_t) \<le> length zero_numeric
   \<and> ReadDecimalConfig (take (nat 0 + unat (8 :: idx_t)) zero_numeric) 0
       = ReadDecimalConfig zero_numeric 0
   \<and> ReadDecimalConfig zero_numeric 0
       = Inr (\<lparr> scale = 2, ndigits = 0, weight = 0, is_negative = False \<rparr>, 8)"
proof -
  have h1: "(4 :: idx_t) < 8" by simp
  have h2: "(8 :: idx_t) \<le> 8 \<and> (0 :: int) \<le> 0 \<and> nat 0 + unat (8 :: idx_t) \<le> length zero_numeric"
    by (simp add: zero_numeric_def)
  note a = decimal_length_guard [of 4 10 2 example_internal_type None "- 1" 0 None
      "[0x00, 0x00, 0x00, 0x00]" 0 "Vector [] [] 0 None" 0]
  note b = decimal_length_guard [of 8 10 2 example_internal_type None "- 1" 0 None
      zero_numeric 0 "Vector [] [] 0 None" 0]
  have c1: "ProcessValue (DECIMAL 10 2) example_internal_type None (- 1) 0 None [0x00, 0x00, 0x00, 0x00]
         0 4 (Vector [] [] 0 None) 0
       = Inl (InvalidInputException ''Need at least 8 bytes to read a Postgres decimal.'')"
    using a h1 by blast
  have c2: "ReadDecimalConfig (take (nat 0 + unat (8 :: idx_t)) zero_numeric) 0
       = ReadDecimalConfig zero_numeric 0"
    using b h2 by blast
  have c3: "ReadDecimalConfig zero_numeric 0
       = Inr (\<lparr> scale = 2, ndigits = 0, weight = 0, is_negative = False \<rparr>, 8)"
    by (simp add: ReadDecimalConfig_def LoadInteger_def load_bytes_def be_nat_def zero_numeric_def
          NUMERIC_POS_def NUMERIC_NAN_def NUMERIC_PINF_def NUMERIC_NINF_def NUMERIC_NEG_def)
  from h1 h2 c1 c2 c3 show ?thesis by blast
qed

subsection \<open>The row id\<close>

lemma row_id_of_int:
  fixes page :: "32 word" and tuple :: "16 word"
  shows "push_bit 16 (scast page :: 64 word) + scast tuple
           = word_of_int (sint page * 2 ^ 16 + sint tuple)"
  unfolding scast_eq push_bit_eq_mult
  by (simp only: of_int_add of_int_mult of_int_numeral of_int_power)

lemma row_id_sint:
  fixes page :: "32 word" and tuple :: "16 word"
  shows "sint (push_bit 16 (scast page :: 64 word) + scast tuple) = sint page * 65536 + sint tuple"
proof -
  have b1: "- 2147483648 \<le> sint page" "sint page < 2147483648"
    using sint_ge [of page] sint_lt [of page] by simp_all
  have b2: "- 32768 \<le> sint tuple" "sint tuple < 32768"
    using sint_ge [of tuple] sint_lt [of tuple] by simp_all
  have r: "- (2 ^ 63) \<le> sint page * 2 ^ 16 + sint tuple" "sint page * 2 ^ 16 + sint tuple < 2 ^ 63"
    using b1 b2 by simp_all
  have "sint (word_of_int (sint page * 2 ^ 16 + sint tuple) :: 64 word)
          = sint page * 2 ^ 16 + sint tuple"
    unfolding sint_sbintrunc' using r by (simp add: signed_take_bit_int_eq_self)
  then show ?thesis unfolding row_id_of_int by simp
qed


lemma row_id_injective:
  fixes page page' :: "32 word" and tuple tuple' :: "16 word"
  assumes "push_bit 16 (scast page :: 64 word) + scast tuple
             = push_bit 16 (scast page') + scast tuple'"
  shows "page = page' \<and> tuple = tuple'"
proof -
  have b2: "- 32768 \<le> sint tuple" "sint tuple < 32768"
    using sint_ge [of tuple] sint_lt [of tuple] by simp_all
  have b3: "- 32768 \<le> sint tuple'" "sint tuple' < 32768"
    using sint_ge [of tuple'] sint_lt [of tuple'] by simp_all
  define d where "d = sint page - sint page'"
  have "sint page * 65536 + sint tuple = sint page' * 65536 + sint tuple'"
    using assms row_id_sint [of page tuple] row_id_sint [of page' tuple'] by simp
  then have eq: "d * 65536 = sint tuple' - sint tuple"
    by (simp add: d_def algebra_simps)
  have "d = 0"
  proof (rule ccontr)
    assume "d \<noteq> 0"
    then have "1 \<le> \<bar>d\<bar>" by simp
    then have "65536 \<le> \<bar>d * 65536\<bar>" by (simp add: abs_mult)
    with eq b2 b3 show False by linarith
  qed
  then have "sint page = sint page'" and "sint tuple = sint tuple'"
    using eq by (simp_all add: d_def)
  then show ?thesis by (simp add: signed_word_eqI)
qed

lemma sint_nonneg_uint:
  fixes w :: "'a::len word"
  assumes "uint w < 2 ^ (LENGTH('a) - 1)"
  shows "sint w = uint w"
proof -
  have "(0::int) \<le> 2 ^ (LENGTH('a) - 1)" by simp
  then have "- (2 ^ (LENGTH('a) - 1)) \<le> uint w"
    using uint_ge_0 [of w] by linarith
  then have "signed_take_bit (LENGTH('a) - 1) (uint w) = uint w"
    using assms by (rule signed_take_bit_int_eq_self)
  then show ?thesis unfolding sint_uint by simp
qed

lemma row_id_unsigned:
  fixes page :: "32 word" and tuple :: "16 word"
  assumes "page < 2 ^ 31" and "tuple < 2 ^ 15"
  shows "push_bit 16 (scast page :: 64 word) + scast tuple
           = push_bit 16 (ucast page) OR ucast tuple"
proof -
  have "uint page < 2 ^ 31" using assms(1) by (simp add: word_less_def)
  then have p: "sint page = uint page" by (intro sint_nonneg_uint) simp
  have "uint tuple < 2 ^ 15" using assms(2) by (simp add: word_less_def)
  then have t: "sint tuple = uint tuple" by (intro sint_nonneg_uint) simp
  have s: "(scast page :: 64 word) = ucast page" "(scast tuple :: 64 word) = ucast tuple"
    unfolding scast_eq ucast_eq p t by simp_all
  have "push_bit 16 (ucast page :: 64 word) AND ucast tuple = 0"
    by (rule bit_eqI) (auto simp: bit_simps dest: bit_imp_le_length)
  then have "push_bit 16 (ucast page :: 64 word) + ucast tuple
               = push_bit 16 (ucast page) OR ucast tuple"
    by (rule disjunctive_add_eq_or)
  then show ?thesis unfolding s .
qed


lemma scan_field_row_id:
  assumes "buffer buf = Some mem" and "buffer_ptr buf = Some p" and "0 \<le> p"
    and "nat p + 10 \<le> length mem" and "take 4 (drop (nat p) mem) = [0, 0, 0, 6]"
  shows "scan_field itype bd COLUMN_IDENTIFIER_ROW_ID buf v off
           = Inr (buf \<lparr> buffer_ptr := Some (p + 10) \<rparr>,
                  set_cell v off
                    (C_int64 (push_bit 16
                                (scast (word_of_nat (be_nat (take 4 (drop (nat p + 4) mem)))
                                          :: 32 word))
                              + scast (word_of_nat (be_nat (take 2 (drop (nat p + 8) mem)))
                                         :: 16 word))))"
proof -
  have n: "nat (p + 4) = nat p + 4" "nat (p + 4 + 4) = nat p + 8"
    using assms(3) by simp_all
  have r: "Read buf 4 = Inr ([0, 0, 0, 6], buf \<lparr> buffer_ptr := Some (p + 4) \<rparr>)"
    using assms by (simp add: Read_def load_bytes_def)
  have l: "(ntoh [0, 0, 0, 6] :: 32 word) = 6"
    by (simp add: ntoh_def be_nat_def)
  have l1: "(LoadInteger mem (p + 4) :: error + (32 word \<times> int))
              = Inr (word_of_nat (be_nat (take 4 (drop (nat p + 4) mem))), p + 4 + 4)"
    using assms n by (simp add: LoadInteger_def load_bytes_def)
  have l2: "(LoadInteger mem (p + 4 + 4) :: error + (16 word \<times> int))
              = Inr (word_of_nat (be_nat (take 2 (drop (nat p + 8) mem))), p + 4 + 4 + 2)"
    using assms n by (simp add: LoadInteger_def load_bytes_def)
  have l2': "(LoadInteger mem (8 + p) :: error + (16 word \<times> int))
              = Inr (word_of_nat (be_nat (take 2 (drop (nat p + 8) mem))), p + 10)"
    using l2 by (simp add: add.commute)
  show ?thesis
    unfolding scan_field_def r
    using assms(1) by (simp add: l l1 l2' Let_def)
qed

text \<open>
  C8, as the code has it. For a 6-byte row identifier the emitted 64-bit row id is
  \<open>(page << 16) + tuple\<close>, where the page index is read as a signed 32-bit and the
  tuple index as a signed 16-bit big-endian integer, both sign-extended; as a signed
  number it is \<open>page * 65536 + tuple\<close> of the signed readings. For a page index below
  \<open>2^31\<close> and a tuple index below \<open>2^15\<close> this is \<open>(page << 16) | tuple\<close> of the
  unsigned readings. Distinct row identifiers give distinct row ids.
\<close>

theorem row_id_signed:
  fixes page page' :: "32 word" and tuple tuple' :: "16 word"
  shows
  "(buffer buf = Some mem \<and> buffer_ptr buf = Some p \<and> 0 \<le> p \<and> nat p + 10 \<le> length mem
      \<and> take 4 (drop (nat p) mem) = [0, 0, 0, 6]
      \<and> page = word_of_nat (be_nat (take 4 (drop (nat p + 4) mem)))
      \<and> tuple = word_of_nat (be_nat (take 2 (drop (nat p + 8) mem))) \<longrightarrow>
    scan_field itype bd COLUMN_IDENTIFIER_ROW_ID buf v off
      = Inr (buf \<lparr> buffer_ptr := Some (p + 10) \<rparr>,
             set_cell v off (C_int64 (push_bit 16 (scast page) + scast tuple))))
   \<and> sint (push_bit 16 (scast page :: 64 word) + scast tuple) = sint page * 65536 + sint tuple
   \<and> (page < 2 ^ 31 \<and> tuple < 2 ^ 15 \<longrightarrow>
        push_bit 16 (scast page :: 64 word) + scast tuple = push_bit 16 (ucast page) OR ucast tuple)
   \<and> (push_bit 16 (scast page :: 64 word) + scast tuple = push_bit 16 (scast page') + scast tuple'
        \<longrightarrow> page = page' \<and> tuple = tuple')"
  using scan_field_row_id [of buf mem p itype bd v off] row_id_sint [of page tuple]
    row_id_unsigned [of page tuple] row_id_injective [of page tuple page' tuple']
  by blast

text \<open>
  C8 as stated fails: for page \<open>0x80000000\<close> and tuple 1 the emitted row id is
  negative, \<open>-(2^47) + 1\<close>, not \<open>(page << 16) | tuple = 2^47 + 1\<close>.
\<close>

theorem row_id_signed_counterexample:
  "scan_field example_internal_type example_bind_data COLUMN_IDENTIFIER_ROW_ID large_ctid_message
     (Vector [] [] 0 None) 0
     = Inr (large_ctid_message \<lparr> buffer_ptr := Some 10 \<rparr>,
            Vector [(0, C_int64 (- 140737488355327))] [] 0 None)
   \<and> push_bit 16 (ucast (0x80000000 :: 32 word)) OR ucast (0x0001 :: 16 word)
       = (140737488355329 :: 64 word)
   \<and> (- 140737488355327 :: 64 word) \<noteq> 140737488355329"
  by (simp add: scan_field_def Read_def load_bytes_def ntoh_def be_nat_def LoadInteger_def
        large_ctid_message_def set_cell_def Let_def)


theorem row_id_signed_witness:
  "buffer ctid_message = Some [0x00, 0x00, 0x00, 0x06, 0x00, 0x00, 0x00, 0x03, 0x00, 0x07]
   \<and> buffer_ptr ctid_message = Some 0
   \<and> scan_field example_internal_type example_bind_data COLUMN_IDENTIFIER_ROW_ID ctid_message
        (Vector [] [] 0 None) 0
       = Inr (ctid_message \<lparr> buffer_ptr := Some 10 \<rparr>, Vector [(0, C_int64 196615)] [] 0 None)
   \<and> (3 :: 32 word) < 2 ^ 31 \<and> (7 :: 16 word) < 2 ^ 15
   \<and> push_bit 16 (scast (3 :: 32 word) :: 64 word) + scast (7 :: 16 word)
       = push_bit 16 (ucast (3 :: 32 word)) OR ucast (7 :: 16 word)
   \<and> sint (push_bit 16 (scast (3 :: 32 word) :: 64 word) + scast (7 :: 16 word)) = 196615"
proof -
  let ?mem = "[0x00, 0x00, 0x00, 0x06, 0x00, 0x00, 0x00, 0x03, 0x00, 0x07] :: byte list"
  have h1: "buffer ctid_message = Some ?mem" and h2: "buffer_ptr ctid_message = Some 0"
    by (simp_all add: ctid_message_def)
  have h3: "(0::int) \<le> 0 \<and> nat 0 + 10 \<le> length ?mem \<and> take 4 (drop (nat 0) ?mem) = [0, 0, 0, 6]"
    by simp
  have h4: "(3 :: 32 word) = word_of_nat (be_nat (take 4 (drop (nat 0 + 4) ?mem)))"
    "(7 :: 16 word) = word_of_nat (be_nat (take 2 (drop (nat 0 + 8) ?mem)))"
    by (simp_all add: be_nat_def)
  have h5: "(3 :: 32 word) < 2 ^ 31 \<and> (7 :: 16 word) < 2 ^ 15" by simp
  note t = row_id_signed [of ctid_message ?mem 0 3 7 example_internal_type example_bind_data
      "Vector [] [] 0 None" 0 3 7]
  have c1: "scan_field example_internal_type example_bind_data COLUMN_IDENTIFIER_ROW_ID ctid_message
        (Vector [] [] 0 None) 0
       = Inr (ctid_message \<lparr> buffer_ptr := Some (0 + 10) \<rparr>,
              set_cell (Vector [] [] 0 None) 0
                (C_int64 (push_bit 16 (scast (3 :: 32 word)) + scast (7 :: 16 word))))"
    using t h1 h2 h3 h4 by blast
  have v: "push_bit 16 (scast (3 :: 32 word) :: 64 word) + scast (7 :: 16 word) = 196615"
    by simp
  have c1': "scan_field example_internal_type example_bind_data COLUMN_IDENTIFIER_ROW_ID ctid_message
        (Vector [] [] 0 None) 0
       = Inr (ctid_message \<lparr> buffer_ptr := Some 10 \<rparr>, Vector [(0, C_int64 196615)] [] 0 None)"
    using c1 unfolding v by (simp add: set_cell_def)
  have c2: "push_bit 16 (scast (3 :: 32 word) :: 64 word) + scast (7 :: 16 word)
       = push_bit 16 (ucast (3 :: 32 word)) OR ucast (7 :: 16 word)"
    using t h5 by blast
  have c3: "sint (push_bit 16 (scast (3 :: 32 word) :: 64 word) + scast (7 :: 16 word)) = 196615"
    using t by simp
  from h1 h2 h5 c1' c2 c3 show ?thesis by blast
qed

end
